theory Spec2Isabelle
  imports Main "HOL-Library.Sublist"
begin

section \<open>JavaScript strings\<close>

text \<open>
  A JavaScript string is a sequence of UTF-16 code units. It is modelled as a
  \<^typ>\<open>string\<close> whose characters are the code units below 256, so that character 160 is
  the no-break space. In that range the white space of \<^verbatim>\<open>String.prototype.trim\<close> and
  of the regular expression class \<^verbatim>\<open>\s\<close> is: tab, line feed, vertical tab, form feed,
  carriage return, space and no-break space. The line terminators (which the regular
  expression \<^verbatim>\<open>.\<close> does not match) are line feed and carriage return.
\<close>

definition is_ws :: "char \<Rightarrow> bool" where
  "is_ws c = (of_char c \<in> {9, 10, 11, 12, 13, 32, 160 :: nat})"

definition is_line_terminator :: "char \<Rightarrow> bool" where
  "is_line_terminator c = (of_char c \<in> {10, 13 :: nat})"

definition is_digit :: "char \<Rightarrow> bool" where
  "is_digit c = (48 \<le> (of_char c :: nat) \<and> (of_char c :: nat) \<le> 57)"

text \<open>\<^verbatim>\<open>s.trim()\<close>\<close>

definition trim :: "string \<Rightarrow> string" where
  "trim s = rev (dropWhile is_ws (rev (dropWhile is_ws s)))"

text \<open>\<^verbatim>\<open>s.startsWith(p)\<close>\<close>

definition startsWith :: "string \<Rightarrow> string \<Rightarrow> bool" where
  "startsWith s p = (take (length p) s = p)"

text \<open>\<^verbatim>\<open>s.substring(n)\<close> for \<open>0 \<le> n\<close>\<close>

definition substring :: "string \<Rightarrow> nat \<Rightarrow> string" where
  "substring s n = drop n s"

text \<open>
  \<^verbatim>\<open>s.split('\n')\<close>: the pieces between the line feeds, in order; the empty string gives
  one empty piece.
\<close>

fun split_nl :: "string \<Rightarrow> string list" where
  "split_nl [] = [[]]"
| "split_nl (c # cs) =
     (if c = CHR 0x0A then [] # split_nl cs
      else (case split_nl cs of
              [] \<Rightarrow> [[c]]
            | l # ls \<Rightarrow> (c # l) # ls))"

section \<open>The plan response parser (llmService.parseEbookPlanResponse)\<close>

text \<open>
  \<^verbatim>\<open>trimmedLine.match(/^Chapter\s+\d+:\s*(.*)/)\<close>. The result is the text of group 1
  when the expression matches and \<open>None\<close> (JavaScript's null) otherwise.
  The expression has no choice to backtrack over: white space, digits and the colon are
  pairwise disjoint, so \<^verbatim>\<open>\s+\<close> and \<^verbatim>\<open>\d+\<close> take their whole run; the greedy
  \<^verbatim>\<open>\s*\<close> takes all the white space after the colon and \<^verbatim>\<open>(.*)\<close>, which always
  matches, takes everything up to the first line terminator.
\<close>

definition titleMatch :: "string \<Rightarrow> string option" where
  "titleMatch l =
     (if startsWith l ''Chapter'' then
        (let r1 = drop (length ''Chapter'') l;
             r2 = dropWhile is_ws r1;
             r3 = dropWhile is_digit r2
         in if takeWhile is_ws r1 \<noteq> [] \<and> takeWhile is_digit r2 \<noteq> [] \<and> startsWith r3 '':''
            then Some (takeWhile (\<lambda>c. \<not> is_line_terminator c) (dropWhile is_ws (drop 1 r3)))
            else None)
      else None)"

text \<open>
  A draft is the \<^verbatim>\<open>Partial<Chapter>\<close> object the parser builds. The parser sets the four
  fields together, so the only partial object is the initial \<^verbatim>\<open>{}\<close>, modelled as
  \<open>None\<close> in the parser state.
\<close>

record draft =
  d_title :: string
  d_description :: string
  d_content :: string
  d_order :: nat

record parse_state =
  chapters :: "draft list"
  currentChapter :: "draft option"
  isDescription :: bool

text \<open>The truth value of \<^verbatim>\<open>currentChapter.title\<close>: defined and not the empty string.\<close>

definition has_title :: "draft option \<Rightarrow> bool" where
  "has_title cur = (case cur of None \<Rightarrow> False | Some d \<Rightarrow> d_title d \<noteq> [])"

text \<open>\<^verbatim>\<open>chapters.push({ ...currentChapter })\<close>\<close>

definition push_current :: "draft list \<Rightarrow> draft option \<Rightarrow> draft list" where
  "push_current chs cur = (case cur of None \<Rightarrow> chs | Some d \<Rightarrow> chs @ [d])"

text \<open>The title a header line gives to the draft it starts.\<close>

definition header_title :: "string \<Rightarrow> string" where
  "header_title trimmedLine =
     (case titleMatch trimmedLine of
        Some g \<Rightarrow> trim g
      | None \<Rightarrow> ''Untitled Chapter'')"

text \<open>The body of the loop over the lines.\<close>

definition parse_line :: "parse_state \<Rightarrow> string \<Rightarrow> parse_state" where
  "parse_line st line =
     (let trimmedLine = trim line in
      if startsWith trimmedLine ''Chapter'' then
        (let chs = (if isDescription st \<and> has_title (currentChapter st)
                    then push_current (chapters st) (currentChapter st)
                    else chapters st)
         in \<lparr> chapters = chs,
              currentChapter = Some \<lparr> d_title = header_title trimmedLine,
                                      d_description = [], d_content = [],
                                      d_order = length chs \<rparr>,
              isDescription = False \<rparr>)
      else if startsWith trimmedLine ''Description:'' then
        (if has_title (currentChapter st) then
           st \<lparr> currentChapter :=
                  map_option (\<lambda>d. d \<lparr> d_description :=
                                         trim (substring trimmedLine (length ''Description:'')) \<rparr>)
                             (currentChapter st),
                isDescription := True \<rparr>
         else st)
      else if isDescription st \<and> has_title (currentChapter st) then
        st \<lparr> currentChapter :=
               map_option (\<lambda>d. d \<lparr> d_description := d_description d @ '' '' @ trimmedLine \<rparr>)
                          (currentChapter st) \<rparr>
      else st)"

definition parse_init :: parse_state where
  "parse_init = \<lparr> chapters = [], currentChapter = None, isDescription = False \<rparr>"

text \<open>The state after the loop has consumed the given lines.\<close>

definition parse_lines :: "string list \<Rightarrow> parse_state" where
  "parse_lines ls = foldl parse_line parse_init ls"

text \<open>The list \<^verbatim>\<open>chapters\<close> after the push that follows the loop.\<close>

definition finalized :: "string \<Rightarrow> draft list" where
  "finalized response =
     (let st = parse_lines (split_nl response)
      in if has_title (currentChapter st)
         then push_current (chapters st) (currentChapter st)
         else chapters st)"

text \<open>The filter predicate \<^verbatim>\<open>c => c.title && c.description\<close>.\<close>

definition valid_draft :: "draft \<Rightarrow> bool" where
  "valid_draft c = (d_title c \<noteq> [] \<and> d_description c \<noteq> [])"

text \<open>
  The parser; \<open>None\<close> is null. Nothing in the body throws on a string, so the
  handler of the enclosing try is not reached.
\<close>

definition parseEbookPlanResponse :: "string \<Rightarrow> draft list option" where
  "parseEbookPlanResponse response =
     (let chs = finalized response;
          validChapters = filter valid_draft chs
      in if chs \<noteq> [] \<and> validChapters = [] then None
         else if validChapters \<noteq> [] then Some validChapters else None)"

text \<open>A header line is one whose trimmed text begins with the marker.\<close>

definition is_header :: "string \<Rightarrow> bool" where
  "is_header line = startsWith (trim line) ''Chapter''"


text \<open>The title of the current draft after the loop body has run on one line.\<close>

definition new_title :: "parse_state \<Rightarrow> string \<Rightarrow> string option" where
  "new_title st line = map_option d_title (currentChapter (parse_line st line))"

text \<open>
  The specification's wording of the title rule, for comparison with the code: the text
  following the first colon of the line.
\<close>

definition after_first_colon :: "string \<Rightarrow> string" where
  "after_first_colon l = drop 1 (dropWhile (\<lambda>c. c \<noteq> CHR '':'') l)"


text \<open>
  The shape of a numbered header: the marker, one or more white-space characters, one
  or more digits, a colon, and then \<open>rest\<close>.
\<close>

definition numbered_header :: "string \<Rightarrow> string \<Rightarrow> bool" where
  "numbered_header l rest =
     (\<exists>ws ds. l = ''Chapter'' @ ws @ ds @ '':'' @ rest \<and> ws \<noteq> [] \<and> (\<forall>c\<in>set ws. is_ws c)
              \<and> ds \<noteq> [] \<and> (\<forall>c\<in>set ds. is_digit c))"

section \<open>Exceptions\<close>

text \<open>
  What the code can throw, as a value. The services and providers catch every
  exception at their boundary; the model returns \<open>Inl\<close> where the source throws and the
  catching function turns it into null (\<open>None\<close>) or false.
\<close>

datatype error =
    StoreError
  | SyntaxError
  | TypeError
  | FetchFailed
  | HttpError nat
  | ApiError
  | MissingApiKey
  | MissingBaseUrl

section \<open>The entity store (lib/database.ts)\<close>

text \<open>
  Rows of the tables \<^verbatim>\<open>projects\<close> and \<^verbatim>\<open>chapters\<close>. A nullable column is an option.
  Timestamps are values of the engine's clock. The \<^verbatim>\<open>order\<close> column is an SQLite
  integer, taken as an unbounded \<^typ>\<open>int\<close>.
\<close>

record Project =
  pr_id :: nat
  pr_name :: string
  pr_description :: "string option"
  pr_parameters :: "string option"
  pr_createdAt :: nat
  pr_updatedAt :: nat

record Chapter =
  ch_id :: nat
  ch_projectId :: nat
  ch_title :: string
  ch_description :: string
  ch_content :: "string option"
  ch_order :: int
  ch_createdAt :: nat
  ch_updatedAt :: nat

text \<open>
  The database: the two tables in row order, the AUTOINCREMENT counter of the chapters
  table, the value of \<^verbatim>\<open>last_insert_rowid()\<close> and the value \<^verbatim>\<open>CURRENT_TIMESTAMP\<close> has
  when a statement runs.
\<close>

record db =
  projects_table :: "Project list"
  chapters_table :: "Chapter list"
  chapters_seq :: nat
  last_insert_rowid :: nat
  current_timestamp :: nat

text \<open>One assignment of the SET clause of an UPDATE.\<close>

datatype chapter_assign =
    SetTitle string
  | SetDescription string
  | SetContent "string option"
  | SetOrder int

datatype project_assign =
    SetName string
  | SetProjectDescription "string option"
  | SetParameters string

text \<open>
  The statements the services send to \<^verbatim>\<open>dbService.run\<close>:
  \<^verbatim>\<open>INSERT INTO chapters (projectId, title, description, content, "order") VALUES (?, ?, ?, ?, ?)\<close>,
  \<^verbatim>\<open>UPDATE chapters SET ... WHERE id = ?\<close> and \<^verbatim>\<open>UPDATE projects SET ... WHERE id = ?\<close>.
\<close>

datatype stmt =
    InsertChapter nat string string "string option" int
  | UpdateChapters "chapter_assign list" nat
  | UpdateProjects "project_assign list" nat

text \<open>
  The queries the services send to \<^verbatim>\<open>dbService.get\<close> and \<^verbatim>\<open>dbService.getOne\<close>:
  \<^verbatim>\<open>SELECT * FROM chapters WHERE id = ?\<close>,
  \<^verbatim>\<open>SELECT * FROM chapters WHERE id = last_insert_rowid()\<close>,
  \<^verbatim>\<open>SELECT * FROM chapters WHERE projectId = ? ORDER BY "order" ASC\<close>,
  \<^verbatim>\<open>SELECT * FROM projects WHERE id = ?\<close> and
  \<^verbatim>\<open>SELECT MAX("order") as maxOrder FROM chapters WHERE projectId = ?\<close>.
\<close>

datatype chapter_query =
    ChapterById nat
  | ChapterLastInserted
  | ChaptersByProjectId nat

datatype query =
    ChapterQuery chapter_query
  | ProjectById nat
  | MaxOrder nat

fun apply_chapter_assign :: "nat \<Rightarrow> Chapter \<Rightarrow> chapter_assign \<Rightarrow> Chapter" where
  "apply_chapter_assign now c (SetTitle t) = c \<lparr> ch_title := t \<rparr>"
| "apply_chapter_assign now c (SetDescription d) = c \<lparr> ch_description := d \<rparr>"
| "apply_chapter_assign now c (SetContent x) = c \<lparr> ch_content := x \<rparr>"
| "apply_chapter_assign now c (SetOrder n) = c \<lparr> ch_order := n \<rparr>"

fun apply_project_assign :: "Project \<Rightarrow> project_assign \<Rightarrow> Project" where
  "apply_project_assign p (SetName n) = p \<lparr> pr_name := n \<rparr>"
| "apply_project_assign p (SetProjectDescription d) = p \<lparr> pr_description := d \<rparr>"
| "apply_project_assign p (SetParameters s) = p \<lparr> pr_parameters := Some s \<rparr>"

text \<open>
  An UPDATE changes the rows with the given id; the triggers
  \<^verbatim>\<open>update_chapter_updatedAt\<close> and \<^verbatim>\<open>update_project_updatedAt\<close> then set the
  \<^verbatim>\<open>updatedAt\<close> of each updated row to the current timestamp.
\<close>

definition update_chapter_row :: "db \<Rightarrow> chapter_assign list \<Rightarrow> nat \<Rightarrow> Chapter \<Rightarrow> Chapter" where
  "update_chapter_row d as i c =
     (if ch_id c = i
      then (foldl (apply_chapter_assign (current_timestamp d)) c as)
             \<lparr> ch_updatedAt := current_timestamp d \<rparr>
      else c)"

definition update_project_row :: "db \<Rightarrow> project_assign list \<Rightarrow> nat \<Rightarrow> Project \<Rightarrow> Project" where
  "update_project_row d as i p =
     (if pr_id p = i
      then (foldl apply_project_assign p as) \<lparr> pr_updatedAt := current_timestamp d \<rparr>
      else p)"

text \<open>
  The row id of an inserted chapter (INTEGER PRIMARY KEY AUTOINCREMENT): one more than
  the largest id the table holds or has ever held.
\<close>

definition next_chapter_id :: "db \<Rightarrow> nat" where
  "next_chapter_id d = Suc (fold max (map ch_id (chapters_table d)) (chapters_seq d))"

text \<open>The effect of a statement that the engine accepts.\<close>

fun exec :: "db \<Rightarrow> stmt \<Rightarrow> db" where
  "exec d (InsertChapter projectId title description content ord) =
     d \<lparr> chapters_table := chapters_table d @
            [\<lparr> ch_id = next_chapter_id d, ch_projectId = projectId, ch_title = title,
               ch_description = description, ch_content = content, ch_order = ord,
               ch_createdAt = current_timestamp d, ch_updatedAt = current_timestamp d \<rparr>],
         chapters_seq := next_chapter_id d,
         last_insert_rowid := next_chapter_id d \<rparr>"
| "exec d (UpdateChapters as i) =
     d \<lparr> chapters_table := map (update_chapter_row d as i) (chapters_table d) \<rparr>"
| "exec d (UpdateProjects as i) =
     d \<lparr> projects_table := map (update_project_row d as i) (projects_table d) \<rparr>"

text \<open>The rows a chapter query selects.\<close>

fun chapter_rows :: "db \<Rightarrow> chapter_query \<Rightarrow> Chapter list" where
  "chapter_rows d (ChapterById i) = filter (\<lambda>c. ch_id c = i) (chapters_table d)"
| "chapter_rows d ChapterLastInserted =
     filter (\<lambda>c. ch_id c = last_insert_rowid d) (chapters_table d)"
| "chapter_rows d (ChaptersByProjectId p) =
     sort_key ch_order (filter (\<lambda>c. ch_projectId c = p) (chapters_table d))"

definition project_rows :: "db \<Rightarrow> nat \<Rightarrow> Project list" where
  "project_rows d i = filter (\<lambda>p. pr_id p = i) (projects_table d)"

text \<open>
  \<^verbatim>\<open>MAX("order")\<close> over the chapters of a project: NULL (\<open>None\<close>) when there is none.
  The query always returns one row, which holds this value.
\<close>

fun list_max :: "int list \<Rightarrow> int option" where
  "list_max [] = None"
| "list_max (x # xs) = (case list_max xs of None \<Rightarrow> Some x | Some m \<Rightarrow> Some (max x m))"

definition max_order_rows :: "db \<Rightarrow> nat \<Rightarrow> int option list" where
  "max_order_rows d p =
     [list_max (map ch_order (filter (\<lambda>c. ch_projectId c = p) (chapters_table d)))]"

text \<open>
  The engine may reject a statement or a query (sql.js throws: the database cannot be
  initialised, a constraint fails, the schema of a loaded file differs). Which ones it
  rejects is not decided by the repository, so it is a parameter, a predicate on the
  database and the statement or query. A rejected statement leaves the database as it
  was.
\<close>

record faults =
  run_fails :: "db \<Rightarrow> stmt \<Rightarrow> bool"
  get_fails :: "db \<Rightarrow> query \<Rightarrow> bool"

text \<open>\<^verbatim>\<open>dbService.run\<close>\<close>

definition dbService_run :: "faults \<Rightarrow> db \<Rightarrow> stmt \<Rightarrow> error + db" where
  "dbService_run F d s = (if run_fails F d s then Inl StoreError else Inr (exec d s))"

text \<open>\<^verbatim>\<open>dbService.get\<close>, at the three row types the services use.\<close>

definition dbService_get_chapters :: "faults \<Rightarrow> db \<Rightarrow> chapter_query \<Rightarrow> error + Chapter list" where
  "dbService_get_chapters F d q =
     (if get_fails F d (ChapterQuery q) then Inl StoreError else Inr (chapter_rows d q))"

definition dbService_get_projects :: "faults \<Rightarrow> db \<Rightarrow> nat \<Rightarrow> error + Project list" where
  "dbService_get_projects F d i =
     (if get_fails F d (ProjectById i) then Inl StoreError else Inr (project_rows d i))"

definition dbService_get_maxOrder :: "faults \<Rightarrow> db \<Rightarrow> nat \<Rightarrow> error + int option list" where
  "dbService_get_maxOrder F d p =
     (if get_fails F d (MaxOrder p) then Inl StoreError else Inr (max_order_rows d p))"

text \<open>\<^verbatim>\<open>dbService.getOne\<close>: the first row, or null.\<close>

definition getOne :: "error + 'a list \<Rightarrow> error + 'a option" where
  "getOne results =
     (case results of
        Inl e \<Rightarrow> Inl e
      | Inr rows \<Rightarrow> Inr (case rows of [] \<Rightarrow> None | r # _ \<Rightarrow> Some r))"

section \<open>The chapter service (services/chapterService.ts)\<close>

text \<open>
  Every service function takes the database and returns it with its result, since the
  source works on the module's database handle.
\<close>

definition getChapterById :: "faults \<Rightarrow> db \<Rightarrow> nat \<Rightarrow> Chapter option" where
  "getChapterById F d i =
     (case getOne (dbService_get_chapters F d (ChapterById i)) of
        Inl e \<Rightarrow> None
      | Inr row \<Rightarrow> row)"

definition getChaptersByProjectId :: "faults \<Rightarrow> db \<Rightarrow> nat \<Rightarrow> Chapter list" where
  "getChaptersByProjectId F d projectId =
     (case dbService_get_chapters F d (ChaptersByProjectId projectId) of
        Inl e \<Rightarrow> []
      | Inr rows \<Rightarrow> rows)"

text \<open>
  JavaScript numbers. The code computes with the order as a \<^verbatim>\<open>number\<close>, an IEEE 754
  double. An integer of magnitude up to \<open>2^53\<close> is a double; a larger one is rounded to
  the nearest double, which is a multiple of the spacing \<open>2^(b - 53)\<close> for an integer
  of \<open>b\<close> bits, a tie going to the even multiple. (Integers of a magnitude below
  \<open>2^1024\<close>; the integers of the column are below \<open>2^63\<close>.)
\<close>

function bit_length :: "int \<Rightarrow> nat" where
  "bit_length n = (if n \<le> 0 then 0 else Suc (bit_length (n div 2)))"
  by pat_completeness auto
termination
  by (relation "measure nat") auto

declare bit_length.simps [simp del]

definition js_number :: "int \<Rightarrow> int" where
  "js_number x =
     (if \<bar>x\<bar> \<le> 2 ^ 53 then x
      else (let u = 2 ^ (bit_length \<bar>x\<bar> - 53);
                q = x div u;
                r = x mod u
            in if 2 * r < u then q * u
               else if u < 2 * r then (q + 1) * u
               else if even q then q * u else (q + 1) * u))"

text \<open>\<^verbatim>\<open>a + b\<close> on integer-valued numbers: the exact sum, rounded.\<close>

definition js_plus :: "int \<Rightarrow> int \<Rightarrow> int" where
  "js_plus a b = js_number (a + b)"

text \<open>
  \<^verbatim>\<open>createChapter\<close>. \<^verbatim>\<open>(result?.maxOrder ?? -1) + 1\<close> is 0 when there is no row or the
  maximum is NULL; otherwise the maximum is read as a number and 1 is added to it as
  numbers are added. The INSERT stores the number it is given.
\<close>

definition createChapter ::
  "faults \<Rightarrow> db \<Rightarrow> nat \<Rightarrow> string \<Rightarrow> string \<Rightarrow> string option \<Rightarrow> db \<times> Chapter option" where
  "createChapter F d projectId title description content =
     (case getOne (dbService_get_maxOrder F d projectId) of
        Inl e \<Rightarrow> (d, None)
      | Inr result \<Rightarrow>
          (let nextOrder =
                 js_plus (case result of
                            None \<Rightarrow> -1
                          | Some maxOrder \<Rightarrow>
                              (case maxOrder of None \<Rightarrow> -1 | Some m \<Rightarrow> js_number m)) 1
           in case dbService_run F d (InsertChapter projectId title description content nextOrder) of
                Inl e \<Rightarrow> (d, None)
              | Inr d' \<Rightarrow>
                  (case getOne (dbService_get_chapters F d' ChapterLastInserted) of
                     Inl e \<Rightarrow> (d', None)
                   | Inr newChapter \<Rightarrow> (d', newChapter))))"

text \<open>
  The argument of \<^verbatim>\<open>updateChapter\<close>: a field is \<open>None\<close> when it is undefined in the
  object; the content may also be given as null.
\<close>

record chapter_updates =
  u_title :: "string option"
  u_description :: "string option"
  u_content :: "string option option"
  u_order :: "int option"

definition chapter_fieldsToUpdate :: "chapter_updates \<Rightarrow> chapter_assign list" where
  "chapter_fieldsToUpdate updates =
     (case u_title updates of None \<Rightarrow> [] | Some t \<Rightarrow> [SetTitle t])
     @ (case u_description updates of None \<Rightarrow> [] | Some x \<Rightarrow> [SetDescription x])
     @ (case u_content updates of None \<Rightarrow> [] | Some x \<Rightarrow> [SetContent x])
     @ (case u_order updates of None \<Rightarrow> [] | Some n \<Rightarrow> [SetOrder n])"

definition updateChapter :: "faults \<Rightarrow> db \<Rightarrow> nat \<Rightarrow> chapter_updates \<Rightarrow> db \<times> Chapter option" where
  "updateChapter F d i updates =
     (let fieldsToUpdate = chapter_fieldsToUpdate updates in
      if length fieldsToUpdate = 0 then (d, getChapterById F d i)
      else (case dbService_run F d (UpdateChapters fieldsToUpdate i) of
              Inl e \<Rightarrow> (d, None)
            | Inr d' \<Rightarrow> (d', getChapterById F d' i)))"

text \<open>\<^verbatim>\<open>updateChapterOrder\<close>: the loop over the updates, left by the first exception.\<close>

record order_update =
  ou_id :: nat
  ou_order :: int

fun updateChapterOrder_loop :: "faults \<Rightarrow> db \<Rightarrow> order_update list \<Rightarrow> db \<times> bool" where
  "updateChapterOrder_loop F d [] = (d, True)"
| "updateChapterOrder_loop F d (update # updates) =
     (case dbService_run F d (UpdateChapters [SetOrder (ou_order update)] (ou_id update)) of
        Inl e \<Rightarrow> (d, False)
      | Inr d' \<Rightarrow> updateChapterOrder_loop F d' updates)"

definition updateChapterOrder :: "faults \<Rightarrow> db \<Rightarrow> order_update list \<Rightarrow> db \<times> bool" where
  "updateChapterOrder F d updates =
     (if length updates = 0 then (d, True) else updateChapterOrder_loop F d updates)"

section \<open>The project service (services/projectService.ts)\<close>

text \<open>
  The generation preferences (\<^verbatim>\<open>EbookParameters\<close>). \<^verbatim>\<open>JSON.stringify\<close> and
  \<^verbatim>\<open>JSON.parse\<close> belong to the platform and are parameters of the functions that call
  them; a parse that throws is \<open>None\<close>.
\<close>

record EbookParameters =
  genre :: "string option"
  targetAudience :: "string option"
  style :: "string option"
  tone :: "string option"
  chapterLength :: "string option"
  pointOfView :: "string option"
  customInstructions :: "string option"
  continueNarrative :: bool
  narrativeHooks :: "string option"

definition getProjectById :: "faults \<Rightarrow> db \<Rightarrow> nat \<Rightarrow> Project option" where
  "getProjectById F d i =
     (case getOne (dbService_get_projects F d i) of
        Inl e \<Rightarrow> None
      | Inr row \<Rightarrow> row)"

record project_updates =
  u_name :: "string option"
  u_pdescription :: "string option option"
  u_parameters :: "EbookParameters option"

definition project_fieldsToUpdate ::
  "(EbookParameters \<Rightarrow> string) \<Rightarrow> project_updates \<Rightarrow> project_assign list" where
  "project_fieldsToUpdate stringify updates =
     (case u_name updates of None \<Rightarrow> [] | Some n \<Rightarrow> [SetName n])
     @ (case u_pdescription updates of None \<Rightarrow> [] | Some x \<Rightarrow> [SetProjectDescription x])
     @ (case u_parameters updates of None \<Rightarrow> [] | Some p \<Rightarrow> [SetParameters (stringify p)])"

definition updateProject ::
  "faults \<Rightarrow> (EbookParameters \<Rightarrow> string) \<Rightarrow> db \<Rightarrow> nat \<Rightarrow> project_updates \<Rightarrow> db \<times> Project option" where
  "updateProject F stringify d i updates =
     (let fieldsToUpdate = project_fieldsToUpdate stringify updates in
      if length fieldsToUpdate = 0 then (d, getProjectById F d i)
      else (case dbService_run F d (UpdateProjects fieldsToUpdate i) of
              Inl e \<Rightarrow> (d, None)
            | Inr d' \<Rightarrow> (d', getProjectById F d' i)))"

section \<open>The providers (providers/*.ts)\<close>

text \<open>The truth value of an optional string: defined and not empty.\<close>

definition truthy :: "string option \<Rightarrow> bool" where
  "truthy s = (case s of None \<Rightarrow> False | Some x \<Rightarrow> x \<noteq> [])"

text \<open>\<^verbatim>\<open>s.endsWith(p)\<close>\<close>

definition endsWith :: "string \<Rightarrow> string \<Rightarrow> bool" where
  "endsWith s p = (length p \<le> length s \<and> drop (length s - length p) s = p)"

record ProviderConfig =
  cfg_apiKey :: "string option"
  cfg_baseUrl :: "string option"
  cfg_model :: string

text \<open>
  A parsed JSON value; the keys of an object are distinct, as \<^verbatim>\<open>JSON.parse\<close> leaves them.
  A JavaScript value read out of one is a JSON value or undefined (\<open>None\<close>).
\<close>

datatype json =
    JNull
  | JBool bool
  | JNumber int
  | JString string
  | JArray "json list"
  | JObject "(string \<times> json) list"

type_synonym jsvalue = "json option"

text \<open>
  The answer of the chat-completion endpoint, as far as the providers read it:
  \<^verbatim>\<open>choices[0]?.message?.content\<close>.
\<close>

record completion_message =
  msg_content :: "string option"

record choice =
  choice_message :: "completion_message option"

text \<open>A role-tagged message of a request: role and content.\<close>

type_synonym chat_message = "string \<times> string"

text \<open>The arguments of \<^verbatim>\<open>new OpenAI({apiKey, baseURL})\<close>.\<close>

record client =
  client_apiKey :: string
  client_baseURL :: "string option"

text \<open>What \<^verbatim>\<open>fetch\<close> resolves to: \<^verbatim>\<open>response.ok\<close>, the status and the outcome of \<^verbatim>\<open>response.json()\<close>.\<close>

record http_response =
  resp_ok :: bool
  resp_status :: nat
  resp_json :: "error + json"

text \<open>
  The network and the platform, which the repository calls and does not define: the
  client library's \<^verbatim>\<open>chat.completions.create\<close> and \<^verbatim>\<open>models.list\<close> (the ids of
  \<^verbatim>\<open>list.data\<close>), \<^verbatim>\<open>fetch\<close>, and \<^verbatim>\<open>Array.prototype.sort\<close>. A call that throws is \<open>Inl\<close>.
\<close>

record platform =
  chat_completions_create :: "client \<Rightarrow> chat_message list \<Rightarrow> string \<Rightarrow> error + choice list"
  models_list :: "client \<Rightarrow> error + string list"
  fetch :: "string \<Rightarrow> error + http_response"
  array_sort :: "jsvalue list \<Rightarrow> jsvalue list"

text \<open>\<^verbatim>\<open>chatCompletion.choices[0]?.message?.content\<close>\<close>

definition first_content :: "choice list \<Rightarrow> string option" where
  "first_content choices =
     (case choices of
        [] \<Rightarrow> None
      | c # _ \<Rightarrow> (case choice_message c of None \<Rightarrow> None | Some m \<Rightarrow> msg_content m))"

text \<open>
  The part the three \<^verbatim>\<open>getChatCompletion\<close> functions share once the client exists: the
  request, and \<^verbatim>\<open>if (!responseContent) return null\<close>.
\<close>

definition chat_completion_text ::
  "platform \<Rightarrow> client \<Rightarrow> chat_message list \<Rightarrow> ProviderConfig \<Rightarrow> string option" where
  "chat_completion_text N cl messages config =
     (case chat_completions_create N cl messages (cfg_model config) of
        Inl e \<Rightarrow> None
      | Inr chatCompletion \<Rightarrow>
          (let responseContent = first_content chatCompletion
           in if \<not> truthy responseContent then None else responseContent))"

text \<open>\<^verbatim>\<open>list.data.map(model => model.id).sort()\<close>\<close>

definition listed_ids :: "platform \<Rightarrow> client \<Rightarrow> error + jsvalue list" where
  "listed_ids N cl =
     (case models_list N cl of
        Inl e \<Rightarrow> Inl e
      | Inr ids \<Rightarrow> Inr (array_sort N (map (\<lambda>i. Some (JString i)) ids)))"

subsection \<open>openaiProvider\<close>

definition openai_getClient :: "ProviderConfig \<Rightarrow> error + client" where
  "openai_getClient config =
     (case cfg_apiKey config of
        None \<Rightarrow> Inl MissingApiKey
      | Some key \<Rightarrow>
          (if key = [] then Inl MissingApiKey
           else Inr \<lparr> client_apiKey = key, client_baseURL = None \<rparr>))"

definition openai_listModels :: "platform \<Rightarrow> ProviderConfig \<Rightarrow> jsvalue list option" where
  "openai_listModels N config =
     (case openai_getClient config of
        Inl e \<Rightarrow> None
      | Inr openai \<Rightarrow> (case listed_ids N openai of Inl e \<Rightarrow> None | Inr models \<Rightarrow> Some models))"

definition openai_getChatCompletion ::
  "platform \<Rightarrow> chat_message list \<Rightarrow> ProviderConfig \<Rightarrow> string option" where
  "openai_getChatCompletion N messages config =
     (case openai_getClient config of
        Inl e \<Rightarrow> None
      | Inr openai \<Rightarrow> chat_completion_text N openai messages config)"

definition openai_testConnection :: "platform \<Rightarrow> ProviderConfig \<Rightarrow> bool" where
  "openai_testConnection N config =
     (case openai_listModels N config of None \<Rightarrow> False | Some models \<Rightarrow> length models > 0)"

subsection \<open>lmstudioProvider\<close>

definition lmstudio_getClient :: "ProviderConfig \<Rightarrow> error + client" where
  "lmstudio_getClient config =
     (case cfg_baseUrl config of
        None \<Rightarrow> Inl MissingBaseUrl
      | Some url \<Rightarrow>
          (if url = [] then Inl MissingBaseUrl
           else Inr \<lparr> client_apiKey = ''lmstudio'', client_baseURL = Some url \<rparr>))"

definition lmstudio_listModels :: "platform \<Rightarrow> ProviderConfig \<Rightarrow> jsvalue list option" where
  "lmstudio_listModels N config =
     (case lmstudio_getClient config of
        Inl e \<Rightarrow> None
      | Inr openai \<Rightarrow> (case listed_ids N openai of Inl e \<Rightarrow> None | Inr models \<Rightarrow> Some models))"

definition lmstudio_getChatCompletion ::
  "platform \<Rightarrow> chat_message list \<Rightarrow> ProviderConfig \<Rightarrow> string option" where
  "lmstudio_getChatCompletion N messages config =
     (case lmstudio_getClient config of
        Inl e \<Rightarrow> None
      | Inr openai \<Rightarrow> chat_completion_text N openai messages config)"

definition lmstudio_testConnection :: "platform \<Rightarrow> ProviderConfig \<Rightarrow> bool" where
  "lmstudio_testConnection N config = (lmstudio_listModels N config \<noteq> None)"

subsection \<open>ollamaProvider\<close>

definition ollama_getClient :: "ProviderConfig \<Rightarrow> error + client" where
  "ollama_getClient config =
     (case cfg_baseUrl config of
        None \<Rightarrow> Inl MissingBaseUrl
      | Some url \<Rightarrow>
          (if url = [] then Inl MissingBaseUrl
           else Inr \<lparr> client_apiKey = ''ollama'',
                      client_baseURL = Some (if endsWith url ''/v1'' then url else url @ ''/v1'') \<rparr>))"

text \<open>The address of the native listing endpoint.\<close>

definition tagsUrl :: "string \<Rightarrow> string" where
  "tagsUrl url = (if endsWith url ''/'' then url @ ''api/tags'' else url @ ''/api/tags'')"

text \<open>
  \<^verbatim>\<open>model.name\<close> for an element of the array: reading a property of null throws; an
  object gives the value of its \<^verbatim>\<open>name\<close> key or undefined; any other value has no such
  property.
\<close>

fun model_name :: "json \<Rightarrow> error + jsvalue" where
  "model_name JNull = Inl TypeError"
| "model_name (JObject kvs) = Inr (map_of kvs ''name'')"
| "model_name _ = Inr None"

text \<open>\<^verbatim>\<open>xs.map((model) => model.name)\<close>: the first exception leaves the map.\<close>

fun map_names :: "json list \<Rightarrow> error + jsvalue list" where
  "map_names [] = Inr []"
| "map_names (x # xs) =
     (case model_name x of
        Inl e \<Rightarrow> Inl e
      | Inr n \<Rightarrow> (case map_names xs of Inl e \<Rightarrow> Inl e | Inr ns \<Rightarrow> Inr (n # ns)))"

text \<open>
  \<^verbatim>\<open>data?.models?.map((model) => model.name).sort() || []\<close>. Only an object can have a
  \<^verbatim>\<open>models\<close> property; a missing or null one ends the chain with undefined, which
  gives the empty list; an array is mapped and sorted; any other value has no callable
  \<^verbatim>\<open>map\<close>, and the call throws.
\<close>

definition native_models :: "platform \<Rightarrow> json \<Rightarrow> error + jsvalue list" where
  "native_models N data =
     (case data of
        JObject kvs \<Rightarrow>
          (case map_of kvs ''models'' of
             None \<Rightarrow> Inr []
           | Some JNull \<Rightarrow> Inr []
           | Some (JArray xs) \<Rightarrow>
               (case map_names xs of Inl e \<Rightarrow> Inl e | Inr ns \<Rightarrow> Inr (array_sort N ns))
           | Some _ \<Rightarrow> Inl TypeError)
      | _ \<Rightarrow> Inr [])"

text \<open>The body of the outer try of \<^verbatim>\<open>listModels\<close>: the native endpoint.\<close>

definition native_attempt :: "platform \<Rightarrow> string \<Rightarrow> error + jsvalue list" where
  "native_attempt N url =
     (case fetch N (tagsUrl url) of
        Inl e \<Rightarrow> Inl e
      | Inr response \<Rightarrow>
          (if \<not> resp_ok response then Inl (HttpError (resp_status response))
           else (case resp_json response of
                   Inl e \<Rightarrow> Inl e
                 | Inr data \<Rightarrow> native_models N data)))"

text \<open>The body of the inner try: the generic listing call.\<close>

definition generic_attempt :: "platform \<Rightarrow> ProviderConfig \<Rightarrow> error + jsvalue list" where
  "generic_attempt N config =
     (case ollama_getClient config of
        Inl e \<Rightarrow> Inl e
      | Inr openai \<Rightarrow> listed_ids N openai)"

definition ollama_listModels :: "platform \<Rightarrow> ProviderConfig \<Rightarrow> jsvalue list option" where
  "ollama_listModels N config =
     (case cfg_baseUrl config of
        None \<Rightarrow> None
      | Some url \<Rightarrow>
          (if url = [] then None
           else (case native_attempt N url of
                   Inr models \<Rightarrow> Some models
                 | Inl e \<Rightarrow>
                     (case generic_attempt N config of
                        Inr models \<Rightarrow> Some models
                      | Inl fallbackError \<Rightarrow> None))))"

definition ollama_getChatCompletion ::
  "platform \<Rightarrow> chat_message list \<Rightarrow> ProviderConfig \<Rightarrow> string option" where
  "ollama_getChatCompletion N messages config =
     (case ollama_getClient config of
        Inl e \<Rightarrow> None
      | Inr openai \<Rightarrow> chat_completion_text N openai messages config)"

definition ollama_testConnection :: "platform \<Rightarrow> ProviderConfig \<Rightarrow> bool" where
  "ollama_testConnection N config =
     (case cfg_baseUrl config of
        None \<Rightarrow> False
      | Some url \<Rightarrow>
          (if url = [] then False
           else (case fetch N (tagsUrl url) of Inl e \<Rightarrow> False | Inr response \<Rightarrow> resp_ok response)))"

section \<open>The dispatcher (services/llmService.ts)\<close>

text \<open>
  The interface \<^verbatim>\<open>LlmProvider\<close>. Its methods are asynchronous and may reject, so a
  method of an arbitrary provider returns an exception or a result; \<^verbatim>\<open>testConnection\<close>
  is optional.
\<close>

record LlmProvider =
  listModels :: "ProviderConfig \<Rightarrow> error + jsvalue list option"
  getChatCompletion :: "chat_message list \<Rightarrow> ProviderConfig \<Rightarrow> error + string option"
  testConnection :: "(ProviderConfig \<Rightarrow> error + bool) option"

definition openaiProvider :: "platform \<Rightarrow> LlmProvider" where
  "openaiProvider N =
     \<lparr> listModels = (\<lambda>config. Inr (openai_listModels N config)),
       getChatCompletion = (\<lambda>messages config. Inr (openai_getChatCompletion N messages config)),
       testConnection = Some (\<lambda>config. Inr (openai_testConnection N config)) \<rparr>"

definition ollamaProvider :: "platform \<Rightarrow> LlmProvider" where
  "ollamaProvider N =
     \<lparr> listModels = (\<lambda>config. Inr (ollama_listModels N config)),
       getChatCompletion = (\<lambda>messages config. Inr (ollama_getChatCompletion N messages config)),
       testConnection = Some (\<lambda>config. Inr (ollama_testConnection N config)) \<rparr>"

definition lmstudioProvider :: "platform \<Rightarrow> LlmProvider" where
  "lmstudioProvider N =
     \<lparr> listModels = (\<lambda>config. Inr (lmstudio_listModels N config)),
       getChatCompletion = (\<lambda>messages config. Inr (lmstudio_getChatCompletion N messages config)),
       testConnection = Some (\<lambda>config. Inr (lmstudio_testConnection N config)) \<rparr>"

record LlmSettings =
  set_provider :: string
  set_apiKey :: string
  set_baseUrl :: string
  set_model :: string

definition getActiveProvider :: "platform \<Rightarrow> LlmSettings \<Rightarrow> LlmProvider option" where
  "getActiveProvider N settings =
     (if set_provider settings = ''openai'' then Some (openaiProvider N)
      else if set_provider settings = ''ollama'' then Some (ollamaProvider N)
      else if set_provider settings = ''lmstudio'' then Some (lmstudioProvider N)
      else None)"

definition createProviderConfig :: "LlmSettings \<Rightarrow> ProviderConfig" where
  "createProviderConfig settings =
     \<lparr> cfg_apiKey = Some (set_apiKey settings),
       cfg_baseUrl = Some (set_baseUrl settings),
       cfg_model = (if set_model settings = [] then
                      (if set_provider settings = ''ollama'' then ''llama3''
                       else if set_provider settings = ''lmstudio'' then ''loaded-model-id''
                       else ''gpt-3.5-turbo'')
                    else set_model settings) \<rparr>"

text \<open>
  The dispatcher's methods, relative to the function that resolves the settings to a
  provider (\<^verbatim>\<open>getActiveProvider\<close> in the source): the three modules the source resolves
  to all implement \<^verbatim>\<open>testConnection\<close>, and the dispatcher is written for any
  \<^verbatim>\<open>LlmProvider\<close>. The settings are those \<^verbatim>\<open>loadLlmSettings()\<close> returns.
\<close>

definition dispatch_listModels ::
  "(LlmSettings \<Rightarrow> LlmProvider option) \<Rightarrow> LlmSettings \<Rightarrow> jsvalue list option" where
  "dispatch_listModels resolve settings =
     (case resolve settings of
        None \<Rightarrow> None
      | Some provider \<Rightarrow>
          (case listModels provider (createProviderConfig settings) of
             Inl e \<Rightarrow> None
           | Inr models \<Rightarrow> models))"

definition dispatch_testConnection ::
  "(LlmSettings \<Rightarrow> LlmProvider option) \<Rightarrow> LlmSettings \<Rightarrow> bool" where
  "dispatch_testConnection resolve settings =
     (case (case resolve settings of None \<Rightarrow> None | Some provider \<Rightarrow> testConnection provider) of
        None \<Rightarrow> dispatch_listModels resolve settings \<noteq> None
      | Some test \<Rightarrow>
          (case test (createProviderConfig settings) of
             Inl e \<Rightarrow> False
           | Inr ok \<Rightarrow> ok))"

definition dispatch_processLLMPrompt ::
  "(LlmSettings \<Rightarrow> LlmProvider option) \<Rightarrow> LlmSettings \<Rightarrow> string \<Rightarrow> string option" where
  "dispatch_processLLMPrompt resolve settings prompt =
     (case resolve settings of
        None \<Rightarrow> None
      | Some provider \<Rightarrow>
          (case getChatCompletion provider [(''user'', prompt)] (createProviderConfig settings) of
             Inl e \<Rightarrow> None
           | Inr r \<Rightarrow> r))"

text \<open>The methods of \<^verbatim>\<open>llmService\<close> itself.\<close>

definition llmService_listModels :: "platform \<Rightarrow> LlmSettings \<Rightarrow> jsvalue list option" where
  "llmService_listModels N = dispatch_listModels (getActiveProvider N)"

definition llmService_testConnection :: "platform \<Rightarrow> LlmSettings \<Rightarrow> bool" where
  "llmService_testConnection N = dispatch_testConnection (getActiveProvider N)"

definition processLLMPrompt :: "platform \<Rightarrow> LlmSettings \<Rightarrow> string \<Rightarrow> string option" where
  "processLLMPrompt N = dispatch_processLLMPrompt (getActiveProvider N)"

section \<open>The sequence generation workflow (llmService.generateChapterSequenceContent)\<close>

text \<open>
  \<^verbatim>\<open>handleChapterContentResponse\<close> awaits \<^verbatim>\<open>updateChapter\<close> and returns true; it returns
  false only from its handler, and \<^verbatim>\<open>updateChapter\<close> catches the exceptions of the
  store itself and returns null, which is not looked at.
\<close>

definition handleChapterContentResponse :: "faults \<Rightarrow> db \<Rightarrow> string \<Rightarrow> nat \<Rightarrow> db \<times> bool" where
  "handleChapterContentResponse F d response chapterId =
     (case updateChapter F d chapterId
             \<lparr> u_title = None, u_description = None, u_content = Some (Some response),
               u_order = None \<rparr> of
        (d', updated) \<Rightarrow> (d', True))"

text \<open>
  What the workflow takes from outside the store: \<^verbatim>\<open>JSON.parse\<close> on the stored
  parameters (\<open>None\<close> when it throws), the prompt template
  \<^verbatim>\<open>generateChapterContentPrompt\<close> (pure string formatting of the project, the chapter
  and the context) and the answer of \<^verbatim>\<open>processLLMPrompt\<close> at each step of the loop (the
  backend need not answer the same prompt twice alike, so the step is an argument).
\<close>

record workflow_env =
  json_parse :: "string \<Rightarrow> EbookParameters option"
  contentPrompt :: "Project \<Rightarrow> Chapter \<Rightarrow> string option \<Rightarrow> string"
  llm_answer :: "nat \<Rightarrow> string \<Rightarrow> string option"

definition default_parameters :: EbookParameters where
  "default_parameters =
     \<lparr> genre = None, targetAudience = None, style = None, tone = None, chapterLength = None,
       pointOfView = None, customInstructions = None, continueNarrative = False,
       narrativeHooks = None \<rparr>"

text \<open>\<^verbatim>\<open>findIndex\<close>: the first index whose element satisfies the predicate, or \<open>None\<close> for -1.\<close>

fun findIndex :: "('a \<Rightarrow> bool) \<Rightarrow> 'a list \<Rightarrow> nat option" where
  "findIndex P [] = None"
| "findIndex P (x # xs) = (if P x then Some 0 else map_option Suc (findIndex P xs))"

text \<open>
  The loop, from index \<open>i\<close>: the in-memory list of chapters (whose entries the loop
  updates), the flag \<^verbatim>\<open>success\<close> and the database.
\<close>

function sequence_loop ::
  "faults \<Rightarrow> workflow_env \<Rightarrow> Project \<Rightarrow> EbookParameters \<Rightarrow> Chapter list \<Rightarrow> nat \<Rightarrow> bool \<Rightarrow> db
     \<Rightarrow> db \<times> bool" where
  "sequence_loop F E project parameters allChapters i success d =
     (if i < length allChapters then
        (let currentChapter = allChapters ! i;
             contextContent =
               (if continueNarrative parameters \<and> i > 0
                then (if truthy (ch_content (allChapters ! (i - 1)))
                      then ch_content (allChapters ! (i - 1)) else None)
                else None);
             prompt = contentPrompt E project currentChapter contextContent;
             contentResponse = llm_answer E i prompt
         in case contentResponse of
              None \<Rightarrow> sequence_loop F E project parameters allChapters (Suc i) False d
            | Some response \<Rightarrow>
                (if response = [] then
                   sequence_loop F E project parameters allChapters (Suc i) False d
                 else
                   (case handleChapterContentResponse F d response (ch_id currentChapter) of
                      (d', saveSuccess) \<Rightarrow>
                        sequence_loop F E project parameters
                          (allChapters [i := currentChapter \<lparr> ch_content := Some response \<rparr>])
                          (Suc i) (if \<not> saveSuccess then False else success) d')))
      else (d, success))"
  by pat_completeness auto
termination
  by (relation "measure (\<lambda>(F, E, project, parameters, allChapters, i, success, d).
                            length allChapters - i)") auto

declare sequence_loop.simps [simp del]

definition generateChapterSequenceContent ::
  "faults \<Rightarrow> workflow_env \<Rightarrow> db \<Rightarrow> nat \<Rightarrow> nat \<Rightarrow> db \<times> bool" where
  "generateChapterSequenceContent F E d projectId startChapterId =
     (case getProjectById F d projectId of
        None \<Rightarrow> (d, False)
      | Some project \<Rightarrow>
          (case (case pr_parameters project of
                   None \<Rightarrow> Some default_parameters
                 | Some s \<Rightarrow> (if s = [] then Some default_parameters else json_parse E s)) of
             None \<Rightarrow> (d, False)
           | Some parameters \<Rightarrow>
               (let allChapters = getChaptersByProjectId F d projectId
                in case findIndex (\<lambda>c. ch_id c = startChapterId) allChapters of
                     None \<Rightarrow> (d, False)
                   | Some startChapterIndex \<Rightarrow>
                       sequence_loop F E project parameters allChapters startChapterIndex True d)))"

section \<open>Notions used to state the properties\<close>

text \<open>The statement \<^verbatim>\<open>updateChapterOrder\<close> sends for one pair.\<close>

definition order_stmt :: "order_update \<Rightarrow> stmt" where
  "order_stmt u = UpdateChapters [SetOrder (ou_order u)] (ou_id u)"

text \<open>The database after the engine has executed the statements of the pairs, in order.\<close>

fun apply_updates :: "db \<Rightarrow> order_update list \<Rightarrow> db" where
  "apply_updates d [] = d"
| "apply_updates d (u # us) = apply_updates (exec d (order_stmt u)) us"

text \<open>The engine accepts the statement of every pair, each in the state the earlier ones leave.\<close>

fun accepts_all :: "faults \<Rightarrow> db \<Rightarrow> order_update list \<Rightarrow> bool" where
  "accepts_all F d [] = True"
| "accepts_all F d (u # us) =
     (\<not> run_fails F d (order_stmt u) \<and> accepts_all F (exec d (order_stmt u)) us)"

text \<open>The order values stored for a chapter id.\<close>

definition orders_of :: "db \<Rightarrow> nat \<Rightarrow> int list" where
  "orders_of d i = map ch_order (filter (\<lambda>c. ch_id c = i) (chapters_table d))"

text \<open>The chapters of a project, in row order.\<close>

definition project_chapters :: "db \<Rightarrow> nat \<Rightarrow> Chapter list" where
  "project_chapters d p = filter (\<lambda>c. ch_projectId c = p) (chapters_table d)"

text \<open>
  The order the specification gives a new chapter: one more than the maximum order
  among the chapters of the project, or 0 when it has none.
\<close>

definition spec_next_order :: "db \<Rightarrow> nat \<Rightarrow> int" where
  "spec_next_order d p =
     (if project_chapters d p = [] then 0
      else Max (ch_order ` set (project_chapters d p)) + 1)"

text \<open>
  The order the code gives a new chapter: the specification's, computed with numbers.
\<close>

definition code_next_order :: "db \<Rightarrow> nat \<Rightarrow> int" where
  "code_next_order d p =
     (if project_chapters d p = [] then 0
      else js_plus (js_number (Max (ch_order ` set (project_chapters d p)))) 1)"

text \<open>
  The maximum order of the project's chapters, if it has any, is in the range in which
  a number and its successor are exact.
\<close>

definition exact_max_order :: "db \<Rightarrow> nat \<Rightarrow> bool" where
  "exact_max_order d p =
     (project_chapters d p = []
      \<or> (- (2 ^ 53) \<le> Max (ch_order ` set (project_chapters d p))
         \<and> Max (ch_order ` set (project_chapters d p)) < 2 ^ 53))"





text \<open>The update with an empty field set.\<close>

definition no_chapter_updates :: chapter_updates where
  "no_chapter_updates =
     \<lparr> u_title = None, u_description = None, u_content = None, u_order = None \<rparr>"

definition no_project_updates :: project_updates where
  "no_project_updates = \<lparr> u_name = None, u_pdescription = None, u_parameters = None \<rparr>"

text \<open>An engine that accepts everything, and a small store for the examples.\<close>

definition no_faults :: faults where
  "no_faults = \<lparr> run_fails = (\<lambda>d s. False), get_fails = (\<lambda>d q. False) \<rparr>"

definition example_chapter :: "nat \<Rightarrow> int \<Rightarrow> Chapter" where
  "example_chapter i n =
     \<lparr> ch_id = i, ch_projectId = 1, ch_title = ''T'', ch_description = ''D'',
       ch_content = None, ch_order = n, ch_createdAt = 0, ch_updatedAt = 0 \<rparr>"

definition example_project :: Project where
  "example_project =
     \<lparr> pr_id = 1, pr_name = ''P'', pr_description = None, pr_parameters = None,
       pr_createdAt = 0, pr_updatedAt = 0 \<rparr>"

definition example_db :: db where
  "example_db =
     \<lparr> projects_table = [example_project],
       chapters_table = [example_chapter 1 0, example_chapter 2 1, example_chapter 3 2],
       chapters_seq = 3, last_insert_rowid = 3, current_timestamp = 7 \<rparr>"

text \<open>A store whose only chapter has the order \<open>2^53\<close>.\<close>

definition large_order_db :: db where
  "large_order_db =
     \<lparr> projects_table = [example_project],
       chapters_table = [example_chapter 1 9007199254740992],
       chapters_seq = 1, last_insert_rowid = 1, current_timestamp = 7 \<rparr>"

section \<open>Properties of the plan response parser\<close>

subsection \<open>Character classes and the header expression\<close>

lemma ws_not_digit: "is_digit c \<Longrightarrow> \<not> is_ws c"
  by (auto simp: is_digit_def is_ws_def)

lemma colon_not_digit: "\<not> is_digit CHR '':''"
  by (simp add: is_digit_def)

lemma colon_not_ws: "\<not> is_ws CHR '':''"
  by (simp add: is_ws_def)

lemma set_trim: "set (trim s) \<subseteq> set s"
  by (auto simp: trim_def dest!: set_dropWhileD)

lemma titleMatch_shape:
  assumes ws: "ws \<noteq> []" "\<forall>c\<in>set ws. is_ws c"
      and ds: "ds \<noteq> []" "\<forall>c\<in>set ds. is_digit c"
  shows "titleMatch (''Chapter'' @ ws @ ds @ '':'' @ rest)
         = Some (takeWhile (\<lambda>c. \<not> is_line_terminator c) (dropWhile is_ws rest))"
proof -
  obtain d ds' where dsc: "ds = d # ds'" using ds(1) by (cases ds) auto
  have d: "\<not> is_ws d" using ds(2) dsc ws_not_digit by auto
  let ?l = "''Chapter'' @ ws @ ds @ '':'' @ rest"
  have r1: "drop (length ''Chapter'') ?l = ws @ ds @ '':'' @ rest" by simp
  have tw: "takeWhile is_ws (ws @ ds @ '':'' @ rest) = ws"
    using ws(2) d dsc by simp
  have dw: "dropWhile is_ws (ws @ ds @ '':'' @ rest) = ds @ '':'' @ rest"
    using ws(2) d dsc by simp
  have td: "takeWhile is_digit (ds @ '':'' @ rest) = ds"
    using ds(2) colon_not_digit by simp
  have dd: "dropWhile is_digit (ds @ '':'' @ rest) = '':'' @ rest"
    using ds(2) colon_not_digit by simp
  have sw: "startsWith ?l ''Chapter''" by (simp add: startsWith_def)
  show ?thesis
    unfolding titleMatch_def Let_def r1 tw dw td dd using sw ws(1) ds(1)
    by (simp add: startsWith_def)
qed

lemma titleMatch_Some_shape:
  assumes "titleMatch l = Some g"
  shows "\<exists>ws ds rest. l = ''Chapter'' @ ws @ ds @ '':'' @ rest \<and> ws \<noteq> []
            \<and> (\<forall>c\<in>set ws. is_ws c) \<and> ds \<noteq> [] \<and> (\<forall>c\<in>set ds. is_digit c)"
proof -
  let ?r1 = "drop (length ''Chapter'') l"
  let ?r2 = "dropWhile is_ws ?r1"
  let ?r3 = "dropWhile is_digit ?r2"
  from assms have sw: "startsWith l ''Chapter''"
    and w: "takeWhile is_ws ?r1 \<noteq> []" and d: "takeWhile is_digit ?r2 \<noteq> []"
    and c: "startsWith ?r3 '':''"
    by (auto simp: titleMatch_def Let_def split: if_splits)
  have "take (length ''Chapter'') l = ''Chapter''" using sw unfolding startsWith_def .
  then have l: "l = ''Chapter'' @ ?r1" by (metis append_take_drop_id)
  have r1: "?r1 = takeWhile is_ws ?r1 @ ?r2" by simp
  have r2: "?r2 = takeWhile is_digit ?r2 @ ?r3" by simp
  from c have "take 1 ?r3 = '':''" by (simp add: startsWith_def)
  then have r3: "?r3 = '':'' @ drop 1 ?r3" by (metis append_take_drop_id)
  have "l = ''Chapter'' @ takeWhile is_ws ?r1 @ takeWhile is_digit ?r2 @ '':'' @ drop 1 ?r3"
    using l r1 r2 r3 by metis
  moreover have "\<forall>c\<in>set (takeWhile is_ws ?r1). is_ws c" by (auto dest: set_takeWhileD)
  moreover have "\<forall>c\<in>set (takeWhile is_digit ?r2). is_digit c" by (auto dest: set_takeWhileD)
  ultimately show ?thesis using w d by blast
qed

lemma no_colon_no_match: "CHR '':'' \<notin> set l \<Longrightarrow> titleMatch l = None"
proof (rule ccontr)
  assume n: "CHR '':'' \<notin> set l" and "titleMatch l \<noteq> None"
  then obtain g where "titleMatch l = Some g" by auto
  from titleMatch_Some_shape[OF this] obtain ws ds rest where
    "l = ''Chapter'' @ ws @ ds @ '':'' @ rest" by blast
  then have "CHR '':'' \<in> set l" by simp
  with n show False by simp
qed

lemma after_first_colon_shape:
  assumes "\<forall>c\<in>set ws. is_ws c" "\<forall>c\<in>set ds. is_digit c"
  shows "after_first_colon (''Chapter'' @ ws @ ds @ '':'' @ rest) = rest"
proof -
  have "\<forall>c\<in>set (''Chapter'' @ ws @ ds). c \<noteq> CHR '':''"
    using assms colon_not_ws colon_not_digit by auto
  then have "dropWhile (\<lambda>c. c \<noteq> CHR '':'') ((''Chapter'' @ ws @ ds) @ '':'' @ rest) = '':'' @ rest"
    by (subst dropWhile_append2) auto
  then show ?thesis by (simp add: after_first_colon_def)
qed

lemma new_title_header:
  "is_header line \<Longrightarrow> new_title st line = Some (header_title (trim line))"
  by (simp add: new_title_def parse_line_def is_header_def Let_def)

subsection \<open>The loop invariant\<close>








subsection \<open>The example of the specification\<close>

text \<open>
  Claim C1. On the input of two chapters separated by an empty line the parser returns
  two drafts, titled \<open>Intro\<close> and \<open>Middle\<close>, with orders 0 and 1. The empty line between
  the chapters is read while the first description is open, so the loop appends a
  space and the (empty) line to it: the first description is \<open>Sets the stage.\<close> followed
  by a space, not the text \<open>Sets the stage.\<close> itself.
\<close>

theorem parse_two_chapters_trailing_space:
  "parseEbookPlanResponse
     ''Chapter 1: Intro\<newline>Description: Sets the stage.\<newline>\<newline>Chapter 2: Middle\<newline>Description: Builds tension.''
   = Some [\<lparr>d_title = ''Intro'', d_description = ''Sets the stage. '', d_content = [], d_order = 0\<rparr>,
           \<lparr>d_title = ''Middle'', d_description = ''Builds tension.'', d_content = [], d_order = 1\<rparr>]"
  by code_simp

subsection \<open>Order of the drafts\<close>




subsection \<open>The title of a header line\<close>

lemma numbered_header_titleMatch:
  "numbered_header l rest \<Longrightarrow>
     titleMatch l = Some (takeWhile (\<lambda>c. \<not> is_line_terminator c) (dropWhile is_ws rest))"
  unfolding numbered_header_def using titleMatch_shape by blast

lemma not_numbered_header: "titleMatch l = None \<Longrightarrow> \<not> numbered_header l rest"
  using numbered_header_titleMatch by fastforce

lemma titleMatch_numbered: "titleMatch l = Some g \<Longrightarrow> \<exists>rest. numbered_header l rest"
  unfolding numbered_header_def using titleMatch_Some_shape by blast

lemma trim_dropWhile: "trim (dropWhile is_ws s) = trim s"
  by (simp add: trim_def)

text \<open>
  Claim C8, as stated, fails: the header \<open>Chapter One: Intro\<close> begins with the marker and
  contains a colon, the text after its first colon is \<open>Intro\<close>, and the parser gives
  the draft the placeholder title.
\<close>

theorem header_with_colon_untitled:
  "is_header ''Chapter One: Intro''
   \<and> CHR '':'' \<in> set ''Chapter One: Intro''
   \<and> trim (after_first_colon (trim ''Chapter One: Intro'')) = ''Intro''
   \<and> new_title parse_init ''Chapter One: Intro'' = Some ''Untitled Chapter''"
  by code_simp

text \<open>
  Claim C8, amended. For every header line (one whose trimmed text begins with the
  marker): when the trimmed text is the marker, white space, a number and a colon
  followed by \<open>rest\<close>, that colon is the first of the line and the title is \<open>rest\<close>
  without its leading white space, cut at the first line terminator and trimmed, which
  is the trimmed text after the first colon when \<open>rest\<close> has no line terminator. When
  the trimmed text has no such shape, and in particular when the line has no colon,
  the title is the placeholder.
\<close>

theorem header_title_rule:
  assumes "is_header line"
  shows "(\<forall>rest. numbered_header (trim line) rest \<longrightarrow>
            after_first_colon (trim line) = rest
            \<and> new_title st line
                = Some (trim (takeWhile (\<lambda>c. \<not> is_line_terminator c) (dropWhile is_ws rest)))
            \<and> ((\<forall>c\<in>set rest. \<not> is_line_terminator c) \<longrightarrow>
                 new_title st line = Some (trim (after_first_colon (trim line)))))
       \<and> ((\<forall>rest. \<not> numbered_header (trim line) rest) \<longrightarrow>
            new_title st line = Some ''Untitled Chapter'')
       \<and> (CHR '':'' \<notin> set line \<longrightarrow> new_title st line = Some ''Untitled Chapter'')"
proof (intro conjI allI impI)
  fix rest assume n: "numbered_header (trim line) rest"
  then obtain ws ds where l: "trim line = ''Chapter'' @ ws @ ds @ '':'' @ rest"
    and w: "\<forall>c\<in>set ws. is_ws c" and d: "\<forall>c\<in>set ds. is_digit c"
    unfolding numbered_header_def by blast
  show a: "after_first_colon (trim line) = rest"
    unfolding l by (rule after_first_colon_shape[OF w d])
  show t: "new_title st line
        = Some (trim (takeWhile (\<lambda>c. \<not> is_line_terminator c) (dropWhile is_ws rest)))"
    using new_title_header[OF assms] numbered_header_titleMatch[OF n]
    by (simp add: header_title_def)
  assume "\<forall>c\<in>set rest. \<not> is_line_terminator c"
  then have "\<And>c. c \<in> set (dropWhile is_ws rest) \<Longrightarrow> \<not> is_line_terminator c"
    using set_dropWhileD by fastforce
  then have tw: "takeWhile (\<lambda>c. \<not> is_line_terminator c) (dropWhile is_ws rest)
                 = dropWhile is_ws rest"
    unfolding takeWhile_eq_all_conv by blast
  show "new_title st line = Some (trim (after_first_colon (trim line)))"
    unfolding a t tw trim_dropWhile by (rule refl)
next
  assume "\<forall>rest. \<not> numbered_header (trim line) rest"
  then have "titleMatch (trim line) = None"
    using titleMatch_numbered by (cases "titleMatch (trim line)") auto
  then show "new_title st line = Some ''Untitled Chapter''"
    using new_title_header[OF assms] by (simp add: header_title_def)
next
  assume "CHR '':'' \<notin> set line"
  then have "CHR '':'' \<notin> set (trim line)" using set_trim[of line] by (rule contra_subsetD[rotated])
  then have "titleMatch (trim line) = None" by (rule no_colon_no_match)
  then show "new_title st line = Some ''Untitled Chapter''"
    using new_title_header[OF assms] by (simp add: header_title_def)
qed

theorem header_title_rule_witness:
  "is_header ''Chapter 1: Intro''
   \<and> numbered_header (trim ''Chapter 1: Intro'') '' Intro''
   \<and> new_title parse_init ''Chapter 1: Intro'' = Some ''Intro''
   \<and> is_header ''Chapter One: Intro''
   \<and> (\<forall>rest. \<not> numbered_header (trim ''Chapter One: Intro'') rest)
   \<and> new_title parse_init ''Chapter One: Intro'' = Some ''Untitled Chapter''
   \<and> is_header ''Chapter One''
   \<and> CHR '':'' \<notin> set ''Chapter One''
   \<and> new_title parse_init ''Chapter One'' = Some ''Untitled Chapter''"
proof -
  have h1: "is_header ''Chapter 1: Intro''" by code_simp
  have t1: "trim ''Chapter 1: Intro'' = ''Chapter'' @ '' '' @ ''1'' @ '':'' @ '' Intro''"
    by code_simp
  have n1: "numbered_header (trim ''Chapter 1: Intro'') '' Intro''"
    unfolding numbered_header_def t1
    by (intro exI[of _ "'' ''"] exI[of _ "''1''"]) (simp add: is_ws_def is_digit_def)
  have l1: "\<forall>c\<in>set '' Intro''. \<not> is_line_terminator c" by (simp add: is_line_terminator_def)
  have a1: "trim (after_first_colon (trim ''Chapter 1: Intro'')) = ''Intro''"
    by code_simp
  have h2: "is_header ''Chapter One: Intro''" by code_simp
  have "titleMatch (trim ''Chapter One: Intro'') = None" by code_simp
  then have n2: "\<forall>rest. \<not> numbered_header (trim ''Chapter One: Intro'') rest"
    using not_numbered_header by blast
  have h3: "is_header ''Chapter One''" by code_simp
  have c3: "CHR '':'' \<notin> set ''Chapter One''" by simp
  from header_title_rule[OF h1, of parse_init] n1 l1 a1
  have r1: "new_title parse_init ''Chapter 1: Intro'' = Some ''Intro''" by metis
  from header_title_rule[OF h2, of parse_init] n2
  have r2: "new_title parse_init ''Chapter One: Intro'' = Some ''Untitled Chapter''" by blast
  from header_title_rule[OF h3, of parse_init] c3
  have r3: "new_title parse_init ''Chapter One'' = Some ''Untitled Chapter''" by blast
  show ?thesis using h1 n1 r1 h2 n2 r2 h3 c3 r3 by blast
qed

section \<open>Properties of the entity store\<close>

subsection \<open>The batch update of chapter orders\<close>

lemma loop_result: "snd (updateChapterOrder_loop F d us) = accepts_all F d us"
  by (induction us arbitrary: d) (auto simp: dbService_run_def order_stmt_def)

lemma loop_accepts:
  "accepts_all F d us \<Longrightarrow> updateChapterOrder_loop F d us = (apply_updates d us, True)"
  by (induction us arbitrary: d) (auto simp: dbService_run_def order_stmt_def)

lemma loop_stops:
  "accepts_all F d pre \<Longrightarrow> run_fails F (apply_updates d pre) (order_stmt u) \<Longrightarrow>
     updateChapterOrder_loop F d (pre @ u # post) = (apply_updates d pre, False)"
  by (induction pre arbitrary: d) (auto simp: dbService_run_def order_stmt_def)

lemma updateChapterOrder_loop_eq: "updateChapterOrder F d us = updateChapterOrder_loop F d us"
  by (cases us) (simp_all add: updateChapterOrder_def)

lemma assign_keeps_id: "ch_id (apply_chapter_assign t c a) = ch_id c"
  by (cases a) simp_all

lemma assigns_keep_id: "ch_id (foldl (apply_chapter_assign t) c as) = ch_id c"
  by (induction as arbitrary: c) (simp_all add: assign_keeps_id)

lemma update_row_id: "ch_id (update_chapter_row d as j c) = ch_id c"
  by (simp add: update_chapter_row_def assigns_keep_id)

lemma update_row_other: "ch_id c \<noteq> j \<Longrightarrow> update_chapter_row d as j c = c"
  by (simp add: update_chapter_row_def)

lemma orders_of_rows_other:
  "i \<noteq> j \<Longrightarrow>
     map ch_order (filter (\<lambda>c. ch_id c = i) (map (update_chapter_row d as j) cs))
     = map ch_order (filter (\<lambda>c. ch_id c = i) cs)"
  by (induction cs) (auto simp: update_row_id update_row_other)

lemma orders_of_exec_other:
  "i \<noteq> ou_id u \<Longrightarrow> orders_of (exec d (order_stmt u)) i = orders_of d i"
  by (simp add: orders_of_def order_stmt_def orders_of_rows_other)

lemma orders_of_untouched:
  "i \<notin> ou_id ` set pre \<Longrightarrow> orders_of (apply_updates d pre) i = orders_of d i"
  by (induction pre arbitrary: d) (auto simp: orders_of_exec_other)

lemma apply_updates_snoc:
  "apply_updates d (pre @ [u]) = exec (apply_updates d pre) (order_stmt u)"
  by (induction pre arbitrary: d) auto

lemma exec_sets_order:
  "c \<in> set (chapters_table (exec d (order_stmt u))) \<Longrightarrow> ch_id c = ou_id u \<Longrightarrow> ch_order c = ou_order u"
  by (auto simp: order_stmt_def update_chapter_row_def split: if_splits)

text \<open>
  Claim C3. The batch update returns true exactly when the engine accepts the statement
  of every pair, and then the store holds the effect of all of them. When the engine
  accepts the pairs of \<open>pre\<close> and rejects the next pair \<open>u\<close>, the update of
  \<open>pre @ u # post\<close> returns false and leaves the store as the pairs of \<open>pre\<close> made it:
  their effects stay, no pair of \<open>post\<close> is executed, and a chapter that no pair of
  \<open>pre\<close> names keeps its order. (Executing a pair gives its order to the chapter it
  names.)
\<close>

theorem updateChapterOrder_not_atomic:
  "snd (updateChapterOrder F d updates) = accepts_all F d updates
   \<and> (accepts_all F d updates \<longrightarrow>
        updateChapterOrder F d updates = (apply_updates d updates, True))
   \<and> (accepts_all F d pre \<and> run_fails F (apply_updates d pre) (order_stmt u) \<longrightarrow>
        updateChapterOrder F d (pre @ u # post) = (apply_updates d pre, False)
        \<and> (\<forall>i. i \<notin> ou_id ` set pre \<longrightarrow> orders_of (apply_updates d pre) i = orders_of d i))
   \<and> (\<forall>c \<in> set (chapters_table (apply_updates d (pre @ [u]))).
         ch_id c = ou_id u \<longrightarrow> ch_order c = ou_order u)"
proof (intro conjI impI ballI allI)
  show "snd (updateChapterOrder F d updates) = accepts_all F d updates"
    by (simp add: updateChapterOrder_loop_eq loop_result)
  show "updateChapterOrder F d updates = (apply_updates d updates, True)"
    if "accepts_all F d updates"
    using that by (simp add: updateChapterOrder_loop_eq loop_accepts)
  show "updateChapterOrder F d (pre @ u # post) = (apply_updates d pre, False)"
    if "accepts_all F d pre \<and> run_fails F (apply_updates d pre) (order_stmt u)"
    using that by (simp add: updateChapterOrder_loop_eq loop_stops)
  show "orders_of (apply_updates d pre) i = orders_of d i"
    if "i \<notin> ou_id ` set pre" for i
    using that by (rule orders_of_untouched)
  show "ch_order c = ou_order u"
    if "c \<in> set (chapters_table (apply_updates d (pre @ [u])))" "ch_id c = ou_id u" for c
    using that unfolding apply_updates_snoc by (rule exec_sets_order)
qed

theorem updateChapterOrder_not_atomic_witness:
  "accepts_all
     \<lparr> run_fails = (\<lambda>d s. s = order_stmt \<lparr> ou_id = 2, ou_order = 1 \<rparr>), get_fails = (\<lambda>d q. False) \<rparr>
     example_db [\<lparr> ou_id = 1, ou_order = 2 \<rparr>]
   \<and> updateChapterOrder
       \<lparr> run_fails = (\<lambda>d s. s = order_stmt \<lparr> ou_id = 2, ou_order = 1 \<rparr>), get_fails = (\<lambda>d q. False) \<rparr>
       example_db
       [\<lparr> ou_id = 1, ou_order = 2 \<rparr>, \<lparr> ou_id = 2, ou_order = 1 \<rparr>, \<lparr> ou_id = 3, ou_order = 0 \<rparr>]
     = (apply_updates example_db [\<lparr> ou_id = 1, ou_order = 2 \<rparr>], False)
   \<and> map ch_order (chapters_table (apply_updates example_db [\<lparr> ou_id = 1, ou_order = 2 \<rparr>]))
     = [2, 1, 2]
   \<and> orders_of (apply_updates example_db [\<lparr> ou_id = 1, ou_order = 2 \<rparr>]) 3 = orders_of example_db 3"
proof -
  let ?F = "\<lparr> run_fails = (\<lambda>d s. s = order_stmt \<lparr> ou_id = 2, ou_order = 1 \<rparr>),
              get_fails = (\<lambda>d q. False) \<rparr>"
  let ?u1 = "\<lparr> ou_id = 1, ou_order = 2 \<rparr>"
  let ?u2 = "\<lparr> ou_id = 2, ou_order = 1 \<rparr>"
  let ?u3 = "\<lparr> ou_id = 3, ou_order = 0 \<rparr>"
  have a: "accepts_all ?F example_db [?u1]" by (simp add: order_stmt_def)
  have f: "run_fails ?F (apply_updates example_db [?u1]) (order_stmt ?u2)" by simp
  have n: "(3::nat) \<notin> ou_id ` set [?u1]" by simp
  have o: "map ch_order (chapters_table (apply_updates example_db [?u1])) = [2, 1, 2]"
    by code_simp
  note w = updateChapterOrder_not_atomic[of ?F example_db "[?u1, ?u2, ?u3]" "[?u1]" ?u2 "[?u3]"]
  from w a f have r: "updateChapterOrder ?F example_db ([?u1] @ ?u2 # [?u3])
                      = (apply_updates example_db [?u1], False)" by blast
  from w a f n have k: "orders_of (apply_updates example_db [?u1]) 3 = orders_of example_db 3"
    by blast
  from r have r': "updateChapterOrder ?F example_db [?u1, ?u2, ?u3]
                      = (apply_updates example_db [?u1], False)" by simp
  show ?thesis using a r' o k by (intro conjI)
qed

subsection \<open>The order of a new chapter\<close>

lemma list_max_Max: "xs \<noteq> [] \<Longrightarrow> list_max xs = Some (Max (set xs))"
proof (induction xs)
  case Nil
  then show ?case by simp
next
  case (Cons x xs)
  show ?case
  proof (cases xs)
    case Nil
    then show ?thesis by simp
  next
    case (Cons y ys)
    then have "list_max xs = Some (Max (set xs))" using Cons.IH by simp
    moreover have "Max (insert x (set xs)) = max x (Max (set xs))"
      using Cons by (intro Max_insert) auto
    ultimately show ?thesis by (simp del: Max.insert)
  qed
qed

lemma list_max_Nil: "list_max xs = None \<longleftrightarrow> xs = []"
  by (cases xs) (auto split: option.splits)

lemma js_number_exact: "\<bar>x\<bar> \<le> 2 ^ 53 \<Longrightarrow> js_number x = x"
  by (simp add: js_number_def)

lemma nextOrder_code:
  "js_plus (case list_max (map ch_order (project_chapters d p)) of
              None \<Rightarrow> -1 | Some m \<Rightarrow> js_number m) 1
   = code_next_order d p"
proof (cases "project_chapters d p = []")
  case True
  then show ?thesis by (simp add: code_next_order_def js_plus_def js_number_exact)
next
  case False
  then have "list_max (map ch_order (project_chapters d p))
             = Some (Max (set (map ch_order (project_chapters d p))))"
    by (intro list_max_Max) simp
  then show ?thesis using False by (simp add: code_next_order_def)
qed

lemma code_next_order_exact:
  assumes "exact_max_order d p"
  shows "code_next_order d p = spec_next_order d p"
proof (cases "project_chapters d p = []")
  case True
  then show ?thesis by (simp add: code_next_order_def spec_next_order_def)
next
  case False
  let ?m = "Max (ch_order ` set (project_chapters d p))"
  from assms False have r: "- (2 ^ 53) \<le> ?m" "?m < 2 ^ 53"
    by (simp_all add: exact_max_order_def)
  then have "\<bar>?m\<bar> \<le> 2 ^ 53" and "\<bar>?m + 1\<bar> \<le> 2 ^ 53" by linarith+
  then have "js_plus (js_number ?m) 1 = ?m + 1"
    by (simp only: js_plus_def js_number_exact)
  then show ?thesis using False by (simp only: code_next_order_def spec_next_order_def if_False)
qed

lemma fold_max_ge: "s \<le> fold max xs (s::nat)"
  by (induction xs arbitrary: s) (auto intro: order_trans[OF max.cobounded2])

lemma fold_max_bound: "x \<in> set xs \<Longrightarrow> x \<le> fold max xs (s::nat)"
proof (induction xs arbitrary: s)
  case Nil
  then show ?case by simp
next
  case (Cons y ys)
  show ?case
  proof (cases "x = y")
    case True
    have "max y s \<le> fold max ys (max y s)" by (rule fold_max_ge)
    then show ?thesis using True by simp
  next
    case False
    then show ?thesis using Cons by simp
  qed
qed

lemma next_chapter_id_fresh: "c \<in> set (chapters_table d) \<Longrightarrow> ch_id c \<noteq> next_chapter_id d"
proof -
  assume "c \<in> set (chapters_table d)"
  then have "ch_id c \<in> set (map ch_id (chapters_table d))" by simp
  then have "ch_id c \<le> fold max (map ch_id (chapters_table d)) (chapters_seq d)"
    by (rule fold_max_bound)
  then show ?thesis by (simp add: next_chapter_id_def)
qed

lemma last_inserted_row:
  "chapter_rows (exec d (InsertChapter p t x c n)) ChapterLastInserted
   = [\<lparr> ch_id = next_chapter_id d, ch_projectId = p, ch_title = t, ch_description = x,
        ch_content = c, ch_order = n, ch_createdAt = current_timestamp d,
        ch_updatedAt = current_timestamp d \<rparr>]"
proof -
  have "filter (\<lambda>c. ch_id c = next_chapter_id d) (chapters_table d) = []"
    using next_chapter_id_fresh by (auto simp: filter_empty_conv)
  then show ?thesis by simp
qed

lemma createChapter_cases:
  "createChapter F d p t x c =
     (if get_fails F d (MaxOrder p) then (d, None)
      else if run_fails F d (InsertChapter p t x c (code_next_order d p)) then (d, None)
      else (exec d (InsertChapter p t x c (code_next_order d p)),
            if get_fails F (exec d (InsertChapter p t x c (code_next_order d p)))
                 (ChapterQuery ChapterLastInserted)
            then None
            else Some \<lparr> ch_id = next_chapter_id d, ch_projectId = p, ch_title = t,
                        ch_description = x, ch_content = c, ch_order = code_next_order d p,
                        ch_createdAt = current_timestamp d,
                        ch_updatedAt = current_timestamp d \<rparr>))"
proof -
  have n: "js_plus (case list_max (map ch_order (filter (\<lambda>c. ch_projectId c = p)
                                                    (chapters_table d))) of
                      None \<Rightarrow> -1 | Some m \<Rightarrow> js_number m) 1 = code_next_order d p"
    using nextOrder_code[of d p] by (simp add: project_chapters_def)
  show ?thesis
    unfolding createChapter_def getOne_def dbService_get_maxOrder_def dbService_run_def
      dbService_get_chapters_def max_order_rows_def
    by (simp add: n Let_def last_inserted_row del: exec.simps chapter_rows.simps)
qed

text \<open>
  Claim C5, as stated, fails: the order is computed as a JavaScript number. In a store
  whose only chapter has the order \<open>2^53\<close>, the maximum plus 1 is \<open>2^53 + 1\<close>, which is
  not a number; the sum is \<open>2^53\<close>, and the new chapter gets the order of the existing
  one.
\<close>

theorem createChapter_order_not_successor:
  "map_option ch_order (snd (createChapter no_faults large_order_db 1 ''T'' ''D'' None))
     = Some 9007199254740992
   \<and> spec_next_order large_order_db 1 = 9007199254740993"
  by code_simp

text \<open>
  Claim C5, amended. Whatever \<^verbatim>\<open>createChapter\<close> returns, the chapters table afterwards
  is the table before, row for row, with at most one row appended, so no existing
  chapter is modified. The appended row belongs to the project; its order is the
  maximum order among the project's chapters plus 1 computed with numbers, which is the
  maximum plus 1 whenever the maximum \<open>m\<close> satisfies \<open>-2^53 \<le> m < 2^53\<close>, and it is 0
  when the project has no chapter. When the engine accepts the three calls, that row is
  the chapter returned.
\<close>

theorem createChapter_next_order:
  assumes "createChapter F d p title description content = (d', r)"
  shows "(chapters_table d' = chapters_table d \<and> r = None
          \<or> (\<exists>new. chapters_table d' = chapters_table d @ [new] \<and> ch_projectId new = p
                \<and> ch_order new = code_next_order d p
                \<and> (exact_max_order d p \<longrightarrow> ch_order new = spec_next_order d p)
                \<and> (r = None \<or> r = Some new)))
       \<and> (\<not> get_fails F d (MaxOrder p)
          \<and> \<not> run_fails F d (InsertChapter p title description content (code_next_order d p))
          \<and> \<not> get_fails F d' (ChapterQuery ChapterLastInserted)
          \<longrightarrow> (\<exists>new. r = Some new \<and> ch_order new = code_next_order d p
                  \<and> (exact_max_order d p \<longrightarrow> ch_order new = spec_next_order d p)
                  \<and> chapters_table d' = chapters_table d @ [new]))"
  using assms unfolding createChapter_cases
  by (auto split: if_splits simp: code_next_order_exact)

theorem createChapter_next_order_witness:
  "createChapter no_faults example_db 1 ''T'' ''D'' None
     = (exec example_db (InsertChapter 1 ''T'' ''D'' None 3),
        Some ((example_chapter 4 3) \<lparr> ch_createdAt := 7, ch_updatedAt := 7 \<rparr>))
   \<and> exact_max_order example_db 1
   \<and> spec_next_order example_db 1 = 3
   \<and> chapters_table (exec example_db (InsertChapter 1 ''T'' ''D'' None 3))
       = chapters_table example_db
         @ [(example_chapter 4 3) \<lparr> ch_createdAt := 7, ch_updatedAt := 7 \<rparr>]
   \<and> map_option ch_order (snd (createChapter no_faults example_db 2 ''T'' ''D'' None)) = Some 0"
proof -
  let ?d' = "exec example_db (InsertChapter 1 ''T'' ''D'' None 3)"
  let ?new = "(example_chapter 4 3) \<lparr> ch_createdAt := 7, ch_updatedAt := 7 \<rparr>"
  have s: "spec_next_order example_db 1 = 3"
    by (simp add: spec_next_order_def project_chapters_def example_db_def example_chapter_def)
  have x: "exact_max_order example_db 1"
    by (simp add: exact_max_order_def project_chapters_def example_db_def example_chapter_def)
  have s2: "map_option ch_order (snd (createChapter no_faults example_db 2 ''T'' ''D'' None))
            = Some 0"
    by code_simp
  have h: "createChapter no_faults example_db 1 ''T'' ''D'' None = (?d', Some ?new)"
    by code_simp
  have g: "\<not> get_fails no_faults example_db (MaxOrder 1)
          \<and> \<not> run_fails no_faults example_db
                (InsertChapter 1 ''T'' ''D'' None (code_next_order example_db 1))
          \<and> \<not> get_fails no_faults ?d' (ChapterQuery ChapterLastInserted)"
    by (simp add: no_faults_def)
  from createChapter_next_order[OF h] g x
  obtain new where "Some ?new = Some new" "ch_order new = spec_next_order example_db 1"
    "chapters_table ?d' = chapters_table example_db @ [new]" by blast
  then have t: "chapters_table ?d' = chapters_table example_db @ [?new]" by simp
  show ?thesis using h x s t s2 by (intro conjI)
qed

subsection \<open>Updates with an empty field set\<close>

lemma getOne_filter: "(case filter P xs of [] \<Rightarrow> None | r # x \<Rightarrow> Some r) = find P xs"
  by (induction xs) auto

lemma getChapterById_find:
  "\<not> get_fails F d (ChapterQuery (ChapterById i)) \<Longrightarrow>
     getChapterById F d i = find (\<lambda>c. ch_id c = i) (chapters_table d)"
  by (simp add: getChapterById_def getOne_def dbService_get_chapters_def getOne_filter)

lemma getProjectById_find:
  "\<not> get_fails F d (ProjectById i) \<Longrightarrow>
     getProjectById F d i = find (\<lambda>p. pr_id p = i) (projects_table d)"
  by (simp add: getProjectById_def getOne_def dbService_get_projects_def project_rows_def
      getOne_filter)

text \<open>
  Claim C6. An update of a chapter or of a project with no field leaves the store as it
  is (every row, with its \<^verbatim>\<open>updatedAt\<close>), and for an existing id, when the engine
  answers the query, it returns the stored entity.
\<close>

theorem update_without_fields_is_noop:
  "fst (updateChapter F d i no_chapter_updates) = d
   \<and> fst (updateProject F stringify d j no_project_updates) = d
   \<and> (\<not> get_fails F d (ChapterQuery (ChapterById i))
        \<and> find (\<lambda>c. ch_id c = i) (chapters_table d) = Some c \<longrightarrow>
      updateChapter F d i no_chapter_updates = (d, Some c))
   \<and> (\<not> get_fails F d (ProjectById j)
        \<and> find (\<lambda>p. pr_id p = j) (projects_table d) = Some p \<longrightarrow>
      updateProject F stringify d j no_project_updates = (d, Some p))"
proof -
  have c: "updateChapter F d i no_chapter_updates = (d, getChapterById F d i)"
    by (simp add: updateChapter_def chapter_fieldsToUpdate_def no_chapter_updates_def)
  have p: "updateProject F stringify d j no_project_updates = (d, getProjectById F d j)"
    by (simp add: updateProject_def project_fieldsToUpdate_def no_project_updates_def)
  show ?thesis unfolding c p
    by (simp add: getChapterById_find getProjectById_find)
qed

theorem update_without_fields_is_noop_witness:
  "find (\<lambda>c. ch_id c = 2) (chapters_table example_db) = Some (example_chapter 2 1)
   \<and> updateChapter no_faults example_db 2 no_chapter_updates
       = (example_db, Some (example_chapter 2 1))
   \<and> find (\<lambda>p. pr_id p = 1) (projects_table example_db) = Some example_project
   \<and> updateProject no_faults (\<lambda>p. []) example_db 1 no_project_updates
       = (example_db, Some example_project)"
proof -
  have g1: "\<not> get_fails no_faults example_db (ChapterQuery (ChapterById 2))"
    by (simp add: no_faults_def)
  have f1: "find (\<lambda>c. ch_id c = 2) (chapters_table example_db) = Some (example_chapter 2 1)"
    by (simp add: example_db_def example_chapter_def)
  have g2: "\<not> get_fails no_faults example_db (ProjectById 1)"
    by (simp add: no_faults_def)
  have f2: "find (\<lambda>p. pr_id p = 1) (projects_table example_db) = Some example_project"
    by (simp add: example_db_def example_project_def)
  note w = update_without_fields_is_noop[of no_faults example_db 2 "\<lambda>p. []" 1
      "example_chapter 2 1" example_project]
  from w g1 f1 have r1: "updateChapter no_faults example_db 2 no_chapter_updates
       = (example_db, Some (example_chapter 2 1))" by blast
  from w g2 f2 have r2: "updateProject no_faults (\<lambda>p. []) example_db 1 no_project_updates
       = (example_db, Some example_project)" by blast
  show ?thesis using f1 r1 f2 r2 by (intro conjI)
qed

section \<open>Properties of the providers and the dispatcher\<close>

subsection \<open>The connection test without \<^verbatim>\<open>testConnection\<close>\<close>

text \<open>
  Claim C7. When the provider the settings resolve to has no \<^verbatim>\<open>testConnection\<close>, the
  dispatcher's connection test is true exactly when the dispatcher's \<^verbatim>\<open>listModels\<close> is
  not null: a list from the provider, empty or not, gives true; null from the provider
  and a rejected call give false.
\<close>

theorem testConnection_fallback:
  assumes "resolve settings = Some provider" "testConnection provider = None"
  shows "dispatch_testConnection resolve settings = (dispatch_listModels resolve settings \<noteq> None)
       \<and> (\<forall>models. listModels provider (createProviderConfig settings) = Inr (Some models) \<longrightarrow>
              dispatch_testConnection resolve settings)
       \<and> (listModels provider (createProviderConfig settings) = Inr None \<longrightarrow>
              \<not> dispatch_testConnection resolve settings)
       \<and> (\<forall>e. listModels provider (createProviderConfig settings) = Inl e \<longrightarrow>
              \<not> dispatch_testConnection resolve settings)"
  using assms by (auto simp: dispatch_testConnection_def dispatch_listModels_def)

lemma testConnection_unresolved:
  "resolve settings = None \<Longrightarrow> \<not> dispatch_testConnection resolve settings"
  by (simp add: dispatch_testConnection_def dispatch_listModels_def)

theorem testConnection_fallback_witness:
  "dispatch_testConnection
     (\<lambda>s. Some \<lparr> listModels = (\<lambda>c. Inr (Some [])), getChatCompletion = (\<lambda>m c. Inr None),
                  testConnection = None \<rparr>)
     \<lparr> set_provider = ''custom'', set_apiKey = [], set_baseUrl = [], set_model = [] \<rparr>
   \<and> \<not> dispatch_testConnection
     (\<lambda>s. Some \<lparr> listModels = (\<lambda>c. Inr None), getChatCompletion = (\<lambda>m c. Inr None),
                  testConnection = None \<rparr>)
     \<lparr> set_provider = ''custom'', set_apiKey = [], set_baseUrl = [], set_model = [] \<rparr>"
proof -
  let ?s = "\<lparr> set_provider = ''custom'', set_apiKey = [], set_baseUrl = [], set_model = [] \<rparr>"
  let ?p = "\<lparr> listModels = (\<lambda>c. Inr (Some [])), getChatCompletion = (\<lambda>m c. Inr None),
              testConnection = None \<rparr> :: LlmProvider"
  let ?q = "\<lparr> listModels = (\<lambda>c. Inr None), getChatCompletion = (\<lambda>m c. Inr None),
              testConnection = None \<rparr> :: LlmProvider"
  have p1: "(\<lambda>s. Some ?p) ?s = Some ?p" and p2: "testConnection ?p = None" by simp_all
  have q1: "(\<lambda>s. Some ?q) ?s = Some ?q" and q2: "testConnection ?q = None" by simp_all
  have lp: "listModels ?p (createProviderConfig ?s) = Inr (Some [])" by simp
  have lq: "listModels ?q (createProviderConfig ?s) = Inr None" by simp
  from testConnection_fallback[OF p1 p2] lp
  have a: "dispatch_testConnection (\<lambda>s. Some ?p) ?s" by blast
  from testConnection_fallback[OF q1 q2] lq
  have b: "\<not> dispatch_testConnection (\<lambda>s. Some ?q) ?s" by blast
  show ?thesis using a b by (intro conjI)
qed

subsection \<open>The native listing endpoint and its fallback\<close>













subsection \<open>Chat completions are never the empty string\<close>

lemma chat_completion_text_nonempty: "chat_completion_text N cl m c \<noteq> Some []"
  by (auto simp: chat_completion_text_def truthy_def Let_def split: sum.splits option.splits)

lemma chat_completion_text_missing:
  "chat_completions_create N cl m (cfg_model c) = Inr choices \<Longrightarrow>
     \<not> truthy (first_content choices) \<Longrightarrow> chat_completion_text N cl m c = None"
  by (simp add: chat_completion_text_def)

text \<open>
  Claim C10. No provider's \<^verbatim>\<open>getChatCompletion\<close> returns the empty string, for any
  backend, messages and configuration, neither called directly nor through the provider
  object or the dispatcher's \<^verbatim>\<open>processLLMPrompt\<close>; and when the first completion of the
  backend's answer has no content or empty content, the result is null.
\<close>

theorem getChatCompletion_never_empty:
  "openai_getChatCompletion N messages config \<noteq> Some []
   \<and> ollama_getChatCompletion N messages config \<noteq> Some []
   \<and> lmstudio_getChatCompletion N messages config \<noteq> Some []
   \<and> ((\<forall>cl. \<exists>choices. chat_completions_create N cl messages (cfg_model config) = Inr choices
                \<and> (first_content choices = None \<or> first_content choices = Some [])) \<longrightarrow>
        openai_getChatCompletion N messages config = None
        \<and> ollama_getChatCompletion N messages config = None
        \<and> lmstudio_getChatCompletion N messages config = None)
   \<and> (\<forall>p \<in> {openaiProvider N, ollamaProvider N, lmstudioProvider N}.
         getChatCompletion p messages config \<noteq> Inr (Some []))
   \<and> processLLMPrompt N settings prompt \<noteq> Some []"
proof -
  have e: "openai_getChatCompletion N messages config \<noteq> Some []
   \<and> ollama_getChatCompletion N messages config \<noteq> Some []
   \<and> lmstudio_getChatCompletion N messages config \<noteq> Some []"
    by (auto simp: openai_getChatCompletion_def ollama_getChatCompletion_def
        lmstudio_getChatCompletion_def chat_completion_text_nonempty split: sum.splits)
  have m: "openai_getChatCompletion N messages config = None
        \<and> ollama_getChatCompletion N messages config = None
        \<and> lmstudio_getChatCompletion N messages config = None"
    if h: "\<forall>cl. \<exists>choices. chat_completions_create N cl messages (cfg_model config) = Inr choices
                \<and> (first_content choices = None \<or> first_content choices = Some [])"
  proof -
    have "chat_completion_text N cl messages config = None" for cl
    proof -
      from h obtain choices where
        c: "chat_completions_create N cl messages (cfg_model config) = Inr choices"
        and f: "first_content choices = None \<or> first_content choices = Some []" by blast
      from f have "\<not> truthy (first_content choices)" by (auto simp: truthy_def)
      with c show ?thesis by (rule chat_completion_text_missing)
    qed
    then show ?thesis
      by (simp add: openai_getChatCompletion_def ollama_getChatCompletion_def
          lmstudio_getChatCompletion_def split: sum.splits)
  qed
  have p: "getChatCompletion p ms c \<noteq> Inr (Some [])"
    if "p \<in> {openaiProvider N, ollamaProvider N, lmstudioProvider N}" for p ms c
    using that
    by (auto simp: openaiProvider_def ollamaProvider_def lmstudioProvider_def
        openai_getChatCompletion_def ollama_getChatCompletion_def
        lmstudio_getChatCompletion_def chat_completion_text_nonempty split: sum.splits)
  have r: "getActiveProvider N settings = Some q \<Longrightarrow>
             q \<in> {openaiProvider N, ollamaProvider N, lmstudioProvider N}" for q
    by (auto simp: getActiveProvider_def split: if_splits)
  have d: "processLLMPrompt N settings prompt \<noteq> Some []"
    using p r
    by (auto simp: processLLMPrompt_def dispatch_processLLMPrompt_def
        split: option.splits sum.splits)
  show ?thesis using e m p d by blast
qed

theorem getChatCompletion_never_empty_witness:
  "openai_getChatCompletion
     \<lparr> chat_completions_create =
         (\<lambda>cl m model. Inr [\<lparr> choice_message = Some \<lparr> msg_content = Some [] \<rparr> \<rparr>]),
       models_list = (\<lambda>cl. Inr []), fetch = (\<lambda>u. Inl FetchFailed), array_sort = (\<lambda>xs. xs) \<rparr>
     [(''user'', ''hi'')]
     \<lparr> cfg_apiKey = Some ''k'', cfg_baseUrl = Some ''http://h'', cfg_model = ''m'' \<rparr> = None
   \<and> ollama_getChatCompletion
     \<lparr> chat_completions_create =
         (\<lambda>cl m model. Inr [\<lparr> choice_message = Some \<lparr> msg_content = Some [] \<rparr> \<rparr>]),
       models_list = (\<lambda>cl. Inr []), fetch = (\<lambda>u. Inl FetchFailed), array_sort = (\<lambda>xs. xs) \<rparr>
     [(''user'', ''hi'')]
     \<lparr> cfg_apiKey = Some ''k'', cfg_baseUrl = Some ''http://h'', cfg_model = ''m'' \<rparr> = None
   \<and> lmstudio_getChatCompletion
     \<lparr> chat_completions_create =
         (\<lambda>cl m model. Inr [\<lparr> choice_message = Some \<lparr> msg_content = Some [] \<rparr> \<rparr>]),
       models_list = (\<lambda>cl. Inr []), fetch = (\<lambda>u. Inl FetchFailed), array_sort = (\<lambda>xs. xs) \<rparr>
     [(''user'', ''hi'')]
     \<lparr> cfg_apiKey = Some ''k'', cfg_baseUrl = Some ''http://h'', cfg_model = ''m'' \<rparr> = None"
proof -
  let ?N = "\<lparr> chat_completions_create =
         (\<lambda>cl m model. Inr [\<lparr> choice_message = Some \<lparr> msg_content = Some [] \<rparr> \<rparr>]),
       models_list = (\<lambda>cl. Inr []), fetch = (\<lambda>u. Inl FetchFailed),
       array_sort = (\<lambda>xs. xs) \<rparr> :: platform"
  let ?m = "[(''user'', ''hi'')]"
  let ?c = "\<lparr> cfg_apiKey = Some ''k'', cfg_baseUrl = Some ''http://h'', cfg_model = ''m'' \<rparr>"
  have h: "\<forall>cl. \<exists>choices. chat_completions_create ?N cl ?m (cfg_model ?c) = Inr choices
                \<and> (first_content choices = None \<or> first_content choices = Some [])"
    by (simp add: first_content_def)
  from getChatCompletion_never_empty[of ?N ?m ?c] h show ?thesis by blast
qed

section \<open>Properties of the sequence generation workflow\<close>

lemma handle_snd: "handleChapterContentResponse F d r i = (d', b) \<Longrightarrow> b"
  by (auto simp: handleChapterContentResponse_def split: prod.splits)

text \<open>
  The flag the loop returns does not depend on the store: two runs of the loop on the
  same chapters with the same answers return the same flag, whatever the engines accept.
\<close>

lemma sequence_loop_result_ignores_store:
  "snd (sequence_loop F E pr ps cs i s d) = snd (sequence_loop F' E pr ps cs i s d')"
proof (induction F E pr ps cs i s d arbitrary: d' rule: sequence_loop.induct)
  case (1 F E project parameters allChapters i success d)
  show ?case
  proof (cases "i < length allChapters")
    case False
    then show ?thesis by (simp add: sequence_loop.simps)
  next
    case True
    let ?ctx = "if continueNarrative parameters \<and> 0 < i
                then (if truthy (ch_content (allChapters ! (i - 1)))
                      then ch_content (allChapters ! (i - 1)) else None)
                else None"
    let ?r = "llm_answer E i (contentPrompt E project (allChapters ! i) ?ctx)"
    show ?thesis
    proof (cases ?r)
      case None
      have l: "sequence_loop F E project parameters allChapters i success d
               = sequence_loop F E project parameters allChapters (Suc i) False d"
        using True None by (subst sequence_loop.simps) (simp add: Let_def)
      have r: "sequence_loop F' E project parameters allChapters i success d'
               = sequence_loop F' E project parameters allChapters (Suc i) False d'"
        using True None by (subst sequence_loop.simps) (simp add: Let_def)
      show ?thesis unfolding l r by (rule "1.IH"(1)[OF True refl refl refl refl None])
    next
      case (Some response)
      show ?thesis
      proof (cases "response = []")
        case e: True
        have l: "sequence_loop F E project parameters allChapters i success d
                 = sequence_loop F E project parameters allChapters (Suc i) False d"
          using True Some e by (subst sequence_loop.simps) (simp add: Let_def)
        have r: "sequence_loop F' E project parameters allChapters i success d'
                 = sequence_loop F' E project parameters allChapters (Suc i) False d'"
          using True Some e by (subst sequence_loop.simps) (simp add: Let_def)
        show ?thesis unfolding l r by (rule "1.IH"(2)[OF True refl refl refl refl Some e])
      next
        case ne: False
        let ?cs = "allChapters[i := (allChapters ! i)\<lparr>ch_content := Some response\<rparr>]"
        obtain d1 b1 where
          h1: "handleChapterContentResponse F d response (ch_id (allChapters ! i)) = (d1, b1)"
          by (cases "handleChapterContentResponse F d response (ch_id (allChapters ! i))")
        obtain d2 b2 where
          h2: "handleChapterContentResponse F' d' response (ch_id (allChapters ! i)) = (d2, b2)"
          by (cases "handleChapterContentResponse F' d' response (ch_id (allChapters ! i))")
        have b: "b1" "b2" using h1 h2 handle_snd by blast+
        have l: "sequence_loop F E project parameters allChapters i success d
                 = sequence_loop F E project parameters ?cs (Suc i)
                     (if \<not> b1 then False else success) d1"
          using True Some ne h1 by (subst sequence_loop.simps) (simp add: Let_def)
        have r: "sequence_loop F' E project parameters allChapters i success d'
                 = sequence_loop F' E project parameters ?cs (Suc i)
                     (if \<not> b1 then False else success) d2"
          using True Some ne h2 b by (subst sequence_loop.simps) (simp add: Let_def)
        show ?thesis unfolding l r
          by (rule "1.IH"(3)[OF True refl refl refl refl Some ne h1[symmetric]])
      qed
    qed
  qed
qed

lemma sequence_result_ignores_writes:
  assumes "get_fails F = get_fails F'"
  shows "snd (generateChapterSequenceContent F E d projectId startChapterId)
         = snd (generateChapterSequenceContent F' E d projectId startChapterId)"
proof -
  have p: "getProjectById F d projectId = getProjectById F' d projectId"
    using assms by (simp add: getProjectById_def dbService_get_projects_def)
  have c: "getChaptersByProjectId F d projectId = getChaptersByProjectId F' d projectId"
    using assms by (simp add: getChaptersByProjectId_def dbService_get_chapters_def)
  show ?thesis
    unfolding generateChapterSequenceContent_def p c Let_def
    by (auto split: option.splits intro!: sequence_loop_result_ignores_store)
qed

text \<open>
  Claim C4 on an input where it fails: the project of the example store, started at its
  last chapter; the backend answers \<open>text\<close> and the engine rejects every write. No
  content is stored, and the workflow returns true: a save that fails is not noticed,
  since \<^verbatim>\<open>handleChapterContentResponse\<close> returns true whatever \<^verbatim>\<open>updateChapter\<close> did.
\<close>

theorem sequence_save_failure_undetected:
  "generateChapterSequenceContent
     \<lparr> run_fails = (\<lambda>d s. True), get_fails = (\<lambda>d q. False) \<rparr>
     \<lparr> json_parse = (\<lambda>s. None), contentPrompt = (\<lambda>p c x. []),
       llm_answer = (\<lambda>i p. Some ''text'') \<rparr>
     example_db 1 3
   = (example_db, True)
   \<and> map ch_content (chapters_table example_db) = [None, None, None]"
  by code_simp

text \<open>
  The scenario of the specification, which the code does follow: three chapters, start
  at the second, the backend fails at the second and answers at the third. The third
  chapter's content is stored, the second's is not, and the result is false.
\<close>

lemma sequence_spec_scenario:
  "(case generateChapterSequenceContent no_faults
     \<lparr> json_parse = (\<lambda>s. None), contentPrompt = (\<lambda>p c x. []),
       llm_answer = (\<lambda>i p. if i = 1 then None else Some ''text'') \<rparr>
     example_db 1 2 of (d', r) \<Rightarrow> (map ch_content (chapters_table d'), r))
   = ([None, None, Some ''text''], False)"
  by code_simp


end
